theory Spec2Isabelle
  imports Complex_Main "HOL-Library.AList"
begin

section \<open>Python values\<close>

text \<open>
  The three functions of \<^verbatim>\<open>visualizer/validators.py\<close> work on the value that
  \<^verbatim>\<open>json.loads\<close> returns for the language model's answer: a tree of None, booleans,
  integers, floats, strings, lists and dictionaries with string keys, without sharing.
  A dictionary is an association list in insertion order; a Python dictionary has each key
  once, and the operations below keep that.  Strings are lists of characters.

  A float is a rational number, an infinity or NaN (the two zeros are one value).
\<close>

datatype pyfloat = Finite rat | PosInf | NegInf | NaN

datatype pyval =
    PNone
  | PBool bool
  | PInt int
  | PFloat pyfloat
  | PStr string
  | PList "pyval list"
  | PDict "(string \<times> pyval) list"

datatype py_exception =
  ValidationError | KeyError | TypeError | AttributeError | ValueError | OverflowError

text \<open>A computation returns \<open>Inr\<close> its value or \<open>Inl\<close> the exception it raises.\<close>

definition bindE :: "'e + 'a \<Rightarrow> ('a \<Rightarrow> 'e + 'b) \<Rightarrow> 'e + 'b" where
  "bindE m f = (case m of Inl e \<Rightarrow> Inl e | Inr x \<Rightarrow> f x)"

text \<open>A list comprehension or a loop body run over a list: the first exception ends it.\<close>

fun mapE :: "('a \<Rightarrow> 'e + 'b) \<Rightarrow> 'a list \<Rightarrow> 'e + 'b list" where
  "mapE f [] = Inr []"
| "mapE f (x # xs) = bindE (f x) (\<lambda>y. bindE (mapE f xs) (\<lambda>ys. Inr (y # ys)))"

subsection \<open>Built-in operations\<close>

definition has_key :: "string \<Rightarrow> (string \<times> pyval) list \<Rightarrow> bool" where
  "has_key k kvs = (k \<in> set (map fst kvs))"

fun is_substring :: "string \<Rightarrow> string \<Rightarrow> bool" where
  "is_substring p [] = (p = [])"
| "is_substring p (c # cs) = (take (length p) (c # cs) = p \<or> is_substring p cs)"

text \<open>
  \<^verbatim>\<open>k in v\<close> for a string \<open>k\<close>: key membership in a dictionary, element membership in a
  list, substring test in a string, TypeError for a value that is not a container.
\<close>

fun py_in :: "string \<Rightarrow> pyval \<Rightarrow> py_exception + bool" where
  "py_in k (PDict kvs) = Inr (has_key k kvs)"
| "py_in k (PList xs) = Inr (PStr k \<in> set xs)"
| "py_in k (PStr s) = Inr (is_substring k s)"
| "py_in k _ = Inl TypeError"

text \<open>\<^verbatim>\<open>v.get(k, default)\<close>: only a dictionary has the method.\<close>

fun py_get :: "pyval \<Rightarrow> string \<Rightarrow> pyval \<Rightarrow> py_exception + pyval" where
  "py_get (PDict kvs) k d = Inr (case map_of kvs k of None \<Rightarrow> d | Some v \<Rightarrow> v)"
| "py_get _ k d = Inl AttributeError"

text \<open>\<^verbatim>\<open>v[k]\<close> for a string \<open>k\<close>.\<close>

fun py_getitem :: "pyval \<Rightarrow> string \<Rightarrow> py_exception + pyval" where
  "py_getitem (PDict kvs) k = (case map_of kvs k of None \<Rightarrow> Inl KeyError | Some v \<Rightarrow> Inr v)"
| "py_getitem _ k = Inl TypeError"

text \<open>
  \<^verbatim>\<open>v[k] = x\<close> for a string \<open>k\<close>: a present key keeps its place, a new key goes
  last.
\<close>

fun py_setitem :: "pyval \<Rightarrow> string \<Rightarrow> pyval \<Rightarrow> py_exception + pyval" where
  "py_setitem (PDict kvs) k x = Inr (PDict (AList.update k x kvs))"
| "py_setitem _ k x = Inl TypeError"

fun py_len :: "pyval \<Rightarrow> py_exception + nat" where
  "py_len (PList xs) = Inr (length xs)"
| "py_len (PStr s) = Inr (length s)"
| "py_len (PDict kvs) = Inr (length kvs)"
| "py_len _ = Inl TypeError"

text \<open>
  The values a \<^verbatim>\<open>for\<close> loop visits: the elements of a list, the keys of a
  dictionary, the characters of a string.
\<close>

fun py_iter :: "pyval \<Rightarrow> py_exception + pyval list" where
  "py_iter (PList xs) = Inr xs"
| "py_iter (PDict kvs) = Inr (map (\<lambda>kv. PStr (fst kv)) kvs)"
| "py_iter (PStr s) = Inr (map (\<lambda>c. PStr [c]) s)"
| "py_iter _ = Inl TypeError"

subsection \<open>Conversion to float\<close>

fun bit_length :: "nat \<Rightarrow> nat" where
  "bit_length n = (if n = 0 then 0 else Suc (bit_length (n div 2)))"

declare bit_length.simps [simp del]

text \<open>
  \<^verbatim>\<open>float(i)\<close> for an integer: the nearest double, ties to even, and OverflowError
  (here \<open>None\<close>) when that is beyond the largest double.
\<close>

definition float_of_int :: "int \<Rightarrow> pyfloat option" where
  "float_of_int i =
     (let a = nat \<bar>i\<bar>;
          sh = bit_length a - 53;
          q = a div 2 ^ sh;
          r = a mod 2 ^ sh;
          up = (2 * r > 2 ^ sh \<or> (sh > 0 \<and> 2 * r = 2 ^ sh \<and> odd q));
          m = (if up then q + 1 else q) * 2 ^ sh
      in if m \<ge> 2 ^ 1024 then None
         else Some (Finite (if i < 0 then - of_nat m else of_nat m)))"

text \<open>
  \<^verbatim>\<open>float(x)\<close>.  What \<^verbatim>\<open>float\<close> makes of a string (its grammar, the rounding of a
  decimal numeral to a double) is the interpreter's, not this repository's: it is the
  parameter \<open>parse\<close>, which returns \<open>None\<close> where \<^verbatim>\<open>float\<close> raises ValueError.
\<close>

fun py_float :: "(string \<Rightarrow> pyfloat option) \<Rightarrow> pyval \<Rightarrow> py_exception + pyval" where
  "py_float parse (PFloat f) = Inr (PFloat f)"
| "py_float parse (PInt i) =
     (case float_of_int i of None \<Rightarrow> Inl OverflowError | Some f \<Rightarrow> Inr (PFloat f))"
| "py_float parse (PBool b) = Inr (PFloat (Finite (if b then 1 else 0)))"
| "py_float parse (PStr s) =
     (case parse s of None \<Rightarrow> Inl ValueError | Some f \<Rightarrow> Inr (PFloat f))"
| "py_float parse _ = Inl TypeError"

section \<open>The chart schema\<close>

text \<open>
  \<^verbatim>\<open>CHART_CONFIG_SCHEMA\<close> is a JSON Schema, checked by the \<^verbatim>\<open>jsonschema\<close>
  library.  Each keyword of the schema is a predicate on values here, with the library's
  reading: a keyword for objects, arrays or strings holds of every value of another kind,
  and a boolean is not a number.
\<close>

datatype json_type = TObject | TArray | TString | TNumber

fun is_type :: "json_type \<Rightarrow> pyval \<Rightarrow> bool" where
  "is_type TObject v = (case v of PDict _ \<Rightarrow> True | _ \<Rightarrow> False)"
| "is_type TArray v = (case v of PList _ \<Rightarrow> True | _ \<Rightarrow> False)"
| "is_type TString v = (case v of PStr _ \<Rightarrow> True | _ \<Rightarrow> False)"
| "is_type TNumber v = (case v of PInt _ \<Rightarrow> True | PFloat _ \<Rightarrow> True | _ \<Rightarrow> False)"

definition is_any_type :: "json_type list \<Rightarrow> pyval \<Rightarrow> bool" where
  "is_any_type ts v = list_ex (\<lambda>t. is_type t v) ts"

definition required :: "string list \<Rightarrow> pyval \<Rightarrow> bool" where
  "required ks v = (case v of PDict kvs \<Rightarrow> list_all (\<lambda>k. has_key k kvs) ks | _ \<Rightarrow> True)"

definition property :: "string \<Rightarrow> (pyval \<Rightarrow> bool) \<Rightarrow> pyval \<Rightarrow> bool" where
  "property k sch v =
     (case v of
        PDict kvs \<Rightarrow> (case map_of kvs k of None \<Rightarrow> True | Some x \<Rightarrow> sch x)
      | _ \<Rightarrow> True)"

definition items :: "(pyval \<Rightarrow> bool) \<Rightarrow> pyval \<Rightarrow> bool" where
  "items sch v = (case v of PList xs \<Rightarrow> list_all sch xs | _ \<Rightarrow> True)"

definition minItems :: "nat \<Rightarrow> pyval \<Rightarrow> bool" where
  "minItems n v = (case v of PList xs \<Rightarrow> n \<le> length xs | _ \<Rightarrow> True)"

definition maxItems :: "nat \<Rightarrow> pyval \<Rightarrow> bool" where
  "maxItems n v = (case v of PList xs \<Rightarrow> length xs \<le> n | _ \<Rightarrow> True)"

definition minLength :: "nat \<Rightarrow> pyval \<Rightarrow> bool" where
  "minLength n v = (case v of PStr s \<Rightarrow> n \<le> length s | _ \<Rightarrow> True)"

definition enum :: "string list \<Rightarrow> pyval \<Rightarrow> bool" where
  "enum names v = (v \<in> set (map PStr names))"

definition oneOf :: "(pyval \<Rightarrow> bool) list \<Rightarrow> pyval \<Rightarrow> bool" where
  "oneOf schs v = (length (filter (\<lambda>sch. sch v) schs) = 1)"

definition chart_types :: "string list" where
  "chart_types =
     [''bar'', ''line'', ''pie'', ''doughnut'', ''radar'', ''polarArea'', ''scatter'',
      ''bubble'']"

definition dataset_schema :: "pyval \<Rightarrow> bool" where
  "dataset_schema v =
     (is_type TObject v \<and>
      required [''label'', ''data''] v \<and>
      property ''label'' (is_type TString) v \<and>
      property ''data'' (\<lambda>d. is_type TArray d \<and> items (is_type TNumber) d) v \<and>
      property ''backgroundColor''
        (oneOf [is_type TString, \<lambda>a. is_type TArray a \<and> items (is_type TString) a]) v \<and>
      property ''borderColor'' (is_type TString) v \<and>
      property ''borderWidth'' (is_type TNumber) v)"

definition chart_data_schema :: "pyval \<Rightarrow> bool" where
  "chart_data_schema v =
     (is_type TObject v \<and>
      required [''labels'', ''datasets''] v \<and>
      property ''labels''
        (\<lambda>l. is_type TArray l \<and> minItems 1 l \<and> items (is_any_type [TString, TNumber]) l) v \<and>
      property ''datasets''
        (\<lambda>d. is_type TArray d \<and> minItems 1 d \<and> items dataset_schema d) v)"

definition chart_schema :: "pyval \<Rightarrow> bool" where
  "chart_schema v =
     (is_type TObject v \<and>
      required [''type'', ''title'', ''data''] v \<and>
      property ''type'' (\<lambda>t. is_type TString t \<and> enum chart_types t) v \<and>
      property ''title'' (\<lambda>t. is_type TString t \<and> minLength 1 t) v \<and>
      property ''data'' chart_data_schema v \<and>
      property ''options'' (is_type TObject) v)"

definition CHART_CONFIG_SCHEMA :: "pyval \<Rightarrow> bool" where
  "CHART_CONFIG_SCHEMA v =
     (is_type TObject v \<and>
      required [''explanation'', ''charts''] v \<and>
      property ''explanation'' (\<lambda>e. is_type TString e \<and> minLength 1 e) v \<and>
      property ''charts''
        (\<lambda>c. is_type TArray c \<and> minItems 1 c \<and> maxItems 10 c \<and> items chart_schema c) v)"

text \<open>\<^verbatim>\<open>validate(instance, schema)\<close> raises ValidationError or returns nothing.\<close>

definition validate :: "pyval \<Rightarrow> (pyval \<Rightarrow> bool) \<Rightarrow> py_exception + unit" where
  "validate instance schema = (if schema instance then Inr () else Inl ValidationError)"

section \<open>\<^verbatim>\<open>VisualizationValidator.validate_config\<close>\<close>

text \<open>
  An error message is the sequence of the parts of its f-string: literal text and
  formatted values; \<^verbatim>\<open>str(e)\<close> of an exception is one part.  The empty message is the
  empty string.
\<close>

datatype piece = Lit string | Fmt pyval | StrOf py_exception

type_synonym message = "piece list"

definition apostrophe :: string where
  "apostrophe = [CHR 0x27]"

definition length_message :: "nat \<Rightarrow> nat \<Rightarrow> pyval \<Rightarrow> message" where
  "length_message data_length labels_length title =
     [Lit ''Data length ('', Fmt (PInt (int data_length)),
      Lit ('') doesn'' @ apostrophe @ ''t match labels length (''),
      Fmt (PInt (int labels_length)),
      Lit ('') in chart '' @ apostrophe), Fmt title, Lit apostrophe]"

definition numeric_message :: "pyval \<Rightarrow> message" where
  "numeric_message title =
     [Lit (''Invalid data values in chart '' @ apostrophe), Fmt title,
      Lit (apostrophe @ '' - must be numeric'')]"

text \<open>\<^verbatim>\<open>isinstance(x, (int, float))\<close>: a boolean is an int in Python.\<close>

fun is_int_or_float :: "pyval \<Rightarrow> bool" where
  "is_int_or_float (PInt _) = True"
| "is_int_or_float (PFloat _) = True"
| "is_int_or_float (PBool _) = True"
| "is_int_or_float _ = False"

text \<open>
  The body of the inner loop for one dataset: \<open>Some\<close> is the \<^verbatim>\<open>return\<close> that leaves
  the function, \<open>None\<close> goes on with the next dataset.
\<close>

definition check_dataset ::
  "pyval \<Rightarrow> nat \<Rightarrow> pyval \<Rightarrow> py_exception + (bool \<times> message) option" where
  "check_dataset chart labels_length dataset =
     bindE (py_getitem dataset ''data'') (\<lambda>d.
     bindE (py_len d) (\<lambda>data_length.
       if data_length \<noteq> labels_length then
         bindE (py_getitem chart ''title'') (\<lambda>t.
           Inr (Some (False, length_message data_length labels_length t)))
       else
         bindE (py_iter d) (\<lambda>xs.
           if \<not> list_all is_int_or_float xs then
             bindE (py_getitem chart ''title'') (\<lambda>t. Inr (Some (False, numeric_message t)))
           else Inr None)))"

fun check_datasets ::
  "pyval \<Rightarrow> nat \<Rightarrow> pyval list \<Rightarrow> py_exception + (bool \<times> message) option" where
  "check_datasets chart labels_length [] = Inr None"
| "check_datasets chart labels_length (dataset # rest) =
     bindE (check_dataset chart labels_length dataset) (\<lambda>r.
       case r of Some res \<Rightarrow> Inr (Some res)
       | None \<Rightarrow> check_datasets chart labels_length rest)"

definition check_chart :: "pyval \<Rightarrow> py_exception + (bool \<times> message) option" where
  "check_chart chart =
     bindE (py_getitem chart ''data'') (\<lambda>data.
     bindE (py_getitem data ''labels'') (\<lambda>labels.
     bindE (py_len labels) (\<lambda>labels_length.
     bindE (py_getitem data ''datasets'') (\<lambda>datasets.
     bindE (py_iter datasets) (\<lambda>ds.
       check_datasets chart labels_length ds)))))"

fun check_charts :: "pyval list \<Rightarrow> py_exception + (bool \<times> message) option" where
  "check_charts [] = Inr None"
| "check_charts (chart # rest) =
     bindE (check_chart chart) (\<lambda>r.
       case r of Some res \<Rightarrow> Inr (Some res) | None \<Rightarrow> check_charts rest)"

text \<open>The \<^verbatim>\<open>try\<close> block.\<close>

definition validate_body :: "pyval \<Rightarrow> py_exception + (bool \<times> message)" where
  "validate_body config =
     bindE (validate config CHART_CONFIG_SCHEMA) (\<lambda>_.
     bindE (py_get config ''charts'' (PList [])) (\<lambda>charts.
     bindE (py_iter charts) (\<lambda>cs.
     bindE (check_charts cs) (\<lambda>r.
       case r of Some res \<Rightarrow> Inr res | None \<Rightarrow> Inr (True, [])))))"

text \<open>
  The function: both handlers, for ValidationError and for every other exception, return
  \<^verbatim>\<open>(False, str(e))\<close>.
\<close>

definition validate_config :: "pyval \<Rightarrow> py_exception + (bool \<times> message)" where
  "validate_config config =
     (case validate_body config of
        Inl e \<Rightarrow> Inr (False, [StrOf e])
      | Inr res \<Rightarrow> Inr res)"

section \<open>\<^verbatim>\<open>VisualizationValidator.fix_common_issues\<close>\<close>

text \<open>
  The function changes its argument in place and returns it.  The values have no sharing,
  so the returned value is a function of the argument, and that function is what follows.
  An exception leaves the function: nothing in it is caught but the conversion of the
  data to floats.
\<close>

text \<open>
  A loop that appends the survivors to a list: the body returns \<open>None\<close> for
  \<^verbatim>\<open>continue\<close> and \<open>Some\<close> the appended value.
\<close>

fun collectE :: "('a \<Rightarrow> 'e + 'b option) \<Rightarrow> 'a list \<Rightarrow> 'e + 'b list" where
  "collectE body [] = Inr []"
| "collectE body (x # xs) =
     bindE (body x) (\<lambda>r.
     bindE (collectE body xs) (\<lambda>kept.
       Inr (case r of None \<Rightarrow> kept | Some y \<Rightarrow> y # kept)))"

text \<open>\<^verbatim>\<open>float(x) if x is not None else 0\<close>\<close>

definition coerce :: "(string \<Rightarrow> pyfloat option) \<Rightarrow> pyval \<Rightarrow> py_exception + pyval" where
  "coerce parse x = (if x \<noteq> PNone then py_float parse x else Inr (PInt 0))"

text \<open>Truncate or pad the data to the number of labels.\<close>

definition reconcile :: "nat \<Rightarrow> pyval list \<Rightarrow> pyval list" where
  "reconcile labels_len xs =
     (if length xs \<noteq> labels_len then
        (if length xs > labels_len then take labels_len xs
         else xs @ replicate (labels_len - length xs) (PInt 0))
      else xs)"

definition fix_dataset ::
  "(string \<Rightarrow> pyfloat option) \<Rightarrow> pyval \<Rightarrow> pyval \<Rightarrow> py_exception + pyval option" where
  "fix_dataset parse data dataset =
     (case dataset of
        PDict s0 \<Rightarrow>
          let s = (if \<not> has_key ''label'' s0
                   then AList.update ''label'' (PStr ''Dataset'') s0 else s0)
          in (case map_of s ''data'' of
                Some (PList xs) \<Rightarrow>
                  (case mapE (coerce parse) xs of
                     Inl _ \<Rightarrow> Inr None
                   | Inr ys \<Rightarrow>
                       bindE (py_get data ''labels'' (PList [])) (\<lambda>labels.
                       bindE (py_len labels) (\<lambda>labels_len.
                         Inr (Some (PDict
                           (AList.update ''data'' (PList (reconcile labels_len ys)) s))))))
              | _ \<Rightarrow> Inr None)
      | _ \<Rightarrow> Inr None)"

definition default_options :: "pyval \<Rightarrow> pyval" where
  "default_options title =
     PDict [(''responsive'', PBool True),
            (''plugins'',
               PDict [(''title'', PDict [(''display'', PBool True), (''text'', title)])])]"

text \<open>
  \<^verbatim>\<open>f"{chart['type'].title()} Chart"\<close>: only a string has the method
  \<^verbatim>\<open>title\<close>.  What the method makes of a string follows the letter cases of Unicode,
  which are the interpreter's: it is the parameter \<open>title_case\<close>.
\<close>

definition default_title :: "(string \<Rightarrow> string) \<Rightarrow> pyval \<Rightarrow> py_exception + pyval" where
  "default_title title_case chart_type =
     (case chart_type of
        PStr t \<Rightarrow> Inr (PStr (title_case t @ '' Chart''))
      | _ \<Rightarrow> Inl AttributeError)"

definition fix_chart ::
  "(string \<Rightarrow> pyfloat option) \<Rightarrow> (string \<Rightarrow> string) \<Rightarrow> pyval \<Rightarrow>
     py_exception + pyval option" where
  "fix_chart parse title_case chart =
     (case chart of
        PDict c0 \<Rightarrow>
          if \<not> has_key ''type'' c0 \<or> \<not> has_key ''data'' c0 then Inr None
          else
            bindE (if \<not> has_key ''title'' c0 then
                     bindE (py_getitem chart ''type'') (\<lambda>chart_type.
                     bindE (default_title title_case chart_type) (\<lambda>title.
                       py_setitem chart ''title'' title))
                   else Inr chart) (\<lambda>chart1.
            bindE (py_get chart1 ''data'' (PDict [])) (\<lambda>data.
            bindE (py_in ''labels'' data) (\<lambda>has_labels.
            if \<not> has_labels then Inr None else
            bindE (py_in ''datasets'' data) (\<lambda>has_datasets.
            if \<not> has_datasets then Inr None else
            bindE (py_get data ''datasets'' (PList [])) (\<lambda>datasets.
            bindE (py_iter datasets) (\<lambda>ds.
            bindE (collectE (fix_dataset parse data) ds) (\<lambda>fixed_datasets.
            if fixed_datasets = [] then Inr None else
            bindE (py_setitem data ''datasets'' (PList fixed_datasets)) (\<lambda>data1.
            bindE (py_setitem chart1 ''data'' data1) (\<lambda>chart2.
            bindE (py_in ''options'' chart2) (\<lambda>has_options.
            bindE (if \<not> has_options then
                     bindE (py_getitem chart2 ''title'') (\<lambda>title.
                       py_setitem chart2 ''options'' (default_options title))
                   else Inr chart2) (\<lambda>chart3.
              Inr (Some chart3))))))))))))
      | _ \<Rightarrow> Inr None)"

definition fix_common_issues ::
  "(string \<Rightarrow> pyfloat option) \<Rightarrow> (string \<Rightarrow> string) \<Rightarrow> pyval \<Rightarrow>
     py_exception + pyval" where
  "fix_common_issues parse title_case config =
     (case config of
        PDict _ \<Rightarrow>
          bindE (py_get config ''charts'' (PList [])) (\<lambda>charts.
          bindE (py_iter charts) (\<lambda>cs.
          bindE (collectE (fix_chart parse title_case) cs) (\<lambda>fixed_charts.
            py_setitem config ''charts'' (PList fixed_charts))))
      | _ \<Rightarrow> Inr config)"

section \<open>\<^verbatim>\<open>apply_visualization_rules\<close>\<close>

text \<open>
  A \<^verbatim>\<open>for\<close> loop whose body changes the visited element in place.  The elements of
  a list are replaced by what the body made of them; the keys of a dictionary and the
  characters of a string are strings, which nothing can change, so the container stays as
  it is when the body raises for none of them.
\<close>

definition for_each :: "(pyval \<Rightarrow> py_exception + pyval) \<Rightarrow> pyval \<Rightarrow> py_exception + pyval" where
  "for_each body container =
     (case container of
        PList xs \<Rightarrow> bindE (mapE body xs) (\<lambda>ys. Inr (PList ys))
      | _ \<Rightarrow> bindE (py_iter container) (\<lambda>xs. bindE (mapE body xs) (\<lambda>_. Inr container)))"

text \<open>
  The object read with \<^verbatim>\<open>container.get(k, default)\<close> was changed in place into
  \<open>v\<close>: the container holds the changed object under \<open>k\<close>; when \<open>k\<close> is absent the
  changed object was the default, which is dropped.
\<close>

definition write_back :: "pyval \<Rightarrow> string \<Rightarrow> pyval \<Rightarrow> pyval" where
  "write_back container k v =
     (case container of
        PDict kvs \<Rightarrow> if has_key k kvs then PDict (AList.update k v kvs) else container
      | _ \<Rightarrow> container)"

definition colors :: "pyval list" where
  "colors =
     [PStr ''rgba(212, 175, 55, 0.8)'', PStr ''rgba(255, 215, 0, 0.8)'',
      PStr ''rgba(212, 175, 55, 0.6)'', PStr ''rgba(255, 215, 0, 0.6)'',
      PStr ''rgba(212, 175, 55, 0.4)'', PStr ''rgba(255, 215, 0, 0.4)'']"

text \<open>\<^verbatim>\<open>xs * n\<close> on a list.\<close>

definition py_repeat :: "'a list \<Rightarrow> nat \<Rightarrow> 'a list" where
  "py_repeat xs n = concat (replicate n xs)"

definition segment_colors :: "nat \<Rightarrow> pyval" where
  "segment_colors num_items =
     PList (take num_items (py_repeat colors (num_items div length colors + 1)))"

text \<open>The body of the loop over the datasets of a chart.\<close>

definition theme_dataset :: "pyval \<Rightarrow> pyval \<Rightarrow> py_exception + pyval" where
  "theme_dataset chart_type dataset =
     bindE (py_in ''backgroundColor'' dataset) (\<lambda>has_background.
     bindE (if \<not> has_background then
              (if chart_type \<in> set [PStr ''pie'', PStr ''doughnut''] then
                 bindE (py_get dataset ''data'' (PList [])) (\<lambda>d.
                 bindE (py_len d) (\<lambda>num_items.
                   py_setitem dataset ''backgroundColor'' (segment_colors num_items)))
               else py_setitem dataset ''backgroundColor'' (PStr ''rgba(212, 175, 55, 0.6)''))
            else Inr dataset) (\<lambda>dataset1.
     bindE (py_in ''borderColor'' dataset1) (\<lambda>has_border.
     bindE (if \<not> has_border then py_setitem dataset1 ''borderColor'' (PStr ''#d4af37'')
            else Inr dataset1) (\<lambda>dataset2.
     bindE (py_in ''borderWidth'' dataset2) (\<lambda>has_width.
       if \<not> has_width then py_setitem dataset2 ''borderWidth'' (PInt 2)
       else Inr dataset2)))))"

text \<open>The first half of the loop body for a chart: the colours of its datasets.\<close>

definition theme_datasets :: "pyval \<Rightarrow> py_exception + pyval" where
  "theme_datasets chart =
     bindE (py_get chart ''type'' (PStr ''bar'')) (\<lambda>chart_type.
     bindE (py_get chart ''data'' (PDict [])) (\<lambda>data.
     bindE (py_get data ''datasets'' (PList [])) (\<lambda>datasets.
     bindE (for_each (theme_dataset chart_type) datasets) (\<lambda>datasets1.
       Inr (write_back chart ''data'' (write_back data ''datasets'' datasets1))))))"

definition title_block :: "pyval \<Rightarrow> pyval" where
  "title_block title =
     PDict [(''display'', PBool True), (''text'', title), (''color'', PStr ''#d4af37''),
            (''font'', PDict [(''size'', PInt 16), (''weight'', PStr ''300'')])]"

definition legend_block :: pyval where
  "legend_block =
     PDict [(''display'', PBool True),
            (''labels'',
               PDict [(''color'', PStr ''#ffffff''), (''font'', PDict [(''size'', PInt 12)])])]"

text \<open>
  The second half: the options.  \<^verbatim>\<open>options['plugins']\<close> is read again at each use
  and changed in place, so what is stored under \<^verbatim>\<open>'plugins'\<close> at the end is the
  changed object.
\<close>

definition theme_options :: "pyval \<Rightarrow> py_exception + pyval" where
  "theme_options chart =
     bindE (py_get chart ''options'' (PDict [])) (\<lambda>options.
     bindE (py_in ''plugins'' options) (\<lambda>has_plugins.
     bindE (if \<not> has_plugins then py_setitem options ''plugins'' (PDict [])
            else Inr options) (\<lambda>options1.
     bindE (py_getitem options1 ''plugins'') (\<lambda>plugins.
     bindE (py_in ''title'' plugins) (\<lambda>has_title.
     bindE (if \<not> has_title then
              bindE (py_get chart ''title'' (PStr ''Chart'')) (\<lambda>title.
                py_setitem plugins ''title'' (title_block title))
            else Inr plugins) (\<lambda>plugins1.
     bindE (py_in ''legend'' plugins1) (\<lambda>has_legend.
     bindE (if \<not> has_legend then py_setitem plugins1 ''legend'' legend_block
            else Inr plugins1) (\<lambda>plugins2.
     bindE (py_setitem options1 ''plugins'' plugins2) (\<lambda>options2.
       py_setitem chart ''options'' options2)))))))))"

definition theme_chart :: "pyval \<Rightarrow> py_exception + pyval" where
  "theme_chart chart = bindE (theme_datasets chart) theme_options"

definition apply_visualization_rules :: "pyval \<Rightarrow> py_exception + pyval" where
  "apply_visualization_rules config =
     (case config of
        PDict kvs \<Rightarrow>
          if \<not> has_key ''charts'' kvs then Inr config
          else
            bindE (py_get config ''charts'' (PList [])) (\<lambda>charts.
            bindE (for_each theme_chart charts) (\<lambda>charts1.
              Inr (write_back config ''charts'' charts1)))
      | _ \<Rightarrow> Inr config)"

section \<open>Reading a document\<close>

text \<open>
  The parts of a document that the properties speak of.  A part that is absent, or is not
  of the kind the schema asks for, reads as the empty list or as \<open>None\<close>.
\<close>

definition lookup :: "pyval \<Rightarrow> string \<Rightarrow> pyval option" where
  "lookup v k = (case v of PDict kvs \<Rightarrow> map_of kvs k | _ \<Rightarrow> None)"

definition elements :: "pyval option \<Rightarrow> pyval list" where
  "elements v = (case v of Some (PList xs) \<Rightarrow> xs | _ \<Rightarrow> [])"

definition chart_list :: "pyval \<Rightarrow> pyval list" where
  "chart_list D = elements (lookup D ''charts'')"

definition chart_data :: "pyval \<Rightarrow> pyval" where
  "chart_data chart = (case lookup chart ''data'' of Some d \<Rightarrow> d | None \<Rightarrow> PNone)"

definition chart_options :: "pyval \<Rightarrow> pyval" where
  "chart_options chart = (case lookup chart ''options'' of Some v \<Rightarrow> v | None \<Rightarrow> PNone)"

text \<open>\<^verbatim>\<open>chart.get('type', 'bar')\<close>\<close>

definition chart_type_of :: "pyval \<Rightarrow> pyval" where
  "chart_type_of chart = (case lookup chart ''type'' of Some t \<Rightarrow> t | None \<Rightarrow> PStr ''bar'')"

definition label_list :: "pyval \<Rightarrow> pyval list" where
  "label_list chart = elements (lookup (chart_data chart) ''labels'')"

definition dataset_list :: "pyval \<Rightarrow> pyval list" where
  "dataset_list chart = elements (lookup (chart_data chart) ''datasets'')"

definition data_list :: "pyval \<Rightarrow> pyval list" where
  "data_list dataset = elements (lookup dataset ''data'')"

definition lengths_agree :: "pyval \<Rightarrow> bool" where
  "lengths_agree chart =
     list_all (\<lambda>dataset. length (data_list dataset) = length (label_list chart))
       (dataset_list chart)"

definition data_elements :: "pyval \<Rightarrow> pyval list" where
  "data_elements D = concat (map data_list (concat (map dataset_list (chart_list D))))"

text \<open>\<^verbatim>\<open>chart['options']['plugins'][k]\<close>, when all three are there.\<close>

definition plugin :: "pyval \<Rightarrow> string \<Rightarrow> pyval option" where
  "plugin chart k =
     (case lookup chart ''options'' of
        Some options \<Rightarrow>
          (case lookup options ''plugins'' of Some plugins \<Rightarrow> lookup plugins k | None \<Rightarrow> None)
      | None \<Rightarrow> None)"

text \<open>
  The value of a number.  A boolean is an integer in Python and counts as 0 or 1.
\<close>

fun number_value :: "pyval \<Rightarrow> pyfloat option" where
  "number_value (PInt i) = Some (Finite (of_int i))"
| "number_value (PFloat f) = Some f"
| "number_value (PBool b) = Some (Finite (if b then 1 else 0))"
| "number_value _ = None"

text \<open>
  \<^verbatim>\<open>x == y\<close> for two numbers: they have the same value, and it is not NaN.  So
  \<^verbatim>\<open>10.0 == 10\<close> and \<^verbatim>\<open>0 == 0.0\<close>.
\<close>

definition equal_numbers :: "pyval \<Rightarrow> pyval \<Rightarrow> bool" where
  "equal_numbers x y =
     (case (number_value x, number_value y) of
        (Some a, Some b) \<Rightarrow> a = b \<and> a \<noteq> NaN
      | _ \<Rightarrow> False)"

text \<open>Documents of the shape the schema describes, for the scenarios.\<close>

definition make_dataset :: "string \<Rightarrow> pyval list \<Rightarrow> pyval" where
  "make_dataset label xs = PDict [(''label'', PStr label), (''data'', PList xs)]"

definition make_chart :: "string \<Rightarrow> string \<Rightarrow> pyval list \<Rightarrow> pyval list \<Rightarrow> pyval" where
  "make_chart chart_type title labels datasets =
     PDict [(''type'', PStr chart_type), (''title'', PStr title),
            (''data'', PDict [(''labels'', PList labels), (''datasets'', PList datasets)])]"

definition make_document :: "string \<Rightarrow> pyval list \<Rightarrow> pyval" where
  "make_document explanation charts =
     PDict [(''explanation'', PStr explanation), (''charts'', PList charts)]"

definition quarters :: "pyval list" where
  "quarters = [PStr ''Q1'', PStr ''Q2'', PStr ''Q3'']"

definition sales_document :: "pyval list \<Rightarrow> pyval" where
  "sales_document xs =
     make_document ''Quarterly sales''
       [make_chart ''bar'' ''Sales'' quarters [make_dataset ''Revenue'' xs]]"

text \<open>
  A pie chart without colours, a chart that brings a colour and a legend, and what theming
  makes of them.
\<close>

definition pie_document :: pyval where
  "pie_document =
     make_document ''Market share''
       [make_chart ''pie'' ''Share'' [PStr ''A'', PStr ''B'', PStr ''C'', PStr ''D'']
          [make_dataset ''Share'' [PInt 40, PInt 30, PInt 20, PInt 10]]]"


definition themed_dataset :: "pyval \<Rightarrow> pyval list \<Rightarrow> pyval" where
  "themed_dataset background xs =
     PDict [(''label'', PStr ''Share''), (''data'', PList xs),
            (''backgroundColor'', background), (''borderColor'', PStr ''#d4af37''),
            (''borderWidth'', PInt 2)]"

definition pie_document_themed :: pyval where
  "pie_document_themed =
     make_document ''Market share''
       [PDict [(''type'', PStr ''pie''), (''title'', PStr ''Share''),
               (''data'', PDict [(''labels'', PList [PStr ''A'', PStr ''B'', PStr ''C'', PStr ''D'']),
                  (''datasets'', PList [themed_dataset
                     (PList [PStr ''rgba(212, 175, 55, 0.8)'', PStr ''rgba(255, 215, 0, 0.8)'',
                             PStr ''rgba(212, 175, 55, 0.6)'', PStr ''rgba(255, 215, 0, 0.6)''])
                     [PInt 40, PInt 30, PInt 20, PInt 10]])]),
               (''options'', PDict [(''plugins'',
                  PDict [(''title'', title_block (PStr ''Share'')), (''legend'', legend_block)])])]]"


text \<open>
  A chart as \<open>fix_common_issues\<close> makes it in the scenarios: the chart with the default
  options added.
\<close>

definition make_repaired_chart ::
  "string \<Rightarrow> string \<Rightarrow> pyval list \<Rightarrow> pyval list \<Rightarrow> pyval" where
  "make_repaired_chart chart_type title labels datasets =
     PDict [(''type'', PStr chart_type), (''title'', PStr title),
            (''data'', PDict [(''labels'', PList labels), (''datasets'', PList datasets)]),
            (''options'', default_options (PStr title))]"

definition repaired_sales_document :: "pyval list \<Rightarrow> pyval" where
  "repaired_sales_document xs =
     make_document ''Quarterly sales''
       [make_repaired_chart ''bar'' ''Sales'' quarters [make_dataset ''Revenue'' xs]]"

text \<open>A chart whose type is a number and whose title is missing.\<close>

definition malformed_document :: pyval where
  "malformed_document =
     PDict [(''charts'', PList [PDict [(''type'', PInt 5), (''data'', PDict [])]])]"

section \<open>The shape of a repaired chart\<close>

text \<open>
  What \<open>fix_common_issues\<close> leaves of a chart that it keeps: the keys \<^verbatim>\<open>type\<close>,
  \<^verbatim>\<open>title\<close>, \<^verbatim>\<open>options\<close> and \<^verbatim>\<open>data\<close>, labels that have a length, and at least
  one dataset, each with a label and with data of that length.  The elements of the data
  are floats, or the integer 0 that stands for None and pads short data; \<open>P\<close> says which.
\<close>

definition repaired_value :: "pyval \<Rightarrow> bool" where
  "repaired_value x = (case x of PFloat _ \<Rightarrow> True | PInt i \<Rightarrow> i = 0 | _ \<Rightarrow> False)"

definition is_float :: "pyval \<Rightarrow> bool" where
  "is_float x = (case x of PFloat _ \<Rightarrow> True | _ \<Rightarrow> False)"

definition repaired_dataset :: "(pyval \<Rightarrow> bool) \<Rightarrow> nat \<Rightarrow> pyval \<Rightarrow> bool" where
  "repaired_dataset P n dataset =
     (case dataset of
        PDict s \<Rightarrow>
          has_key ''label'' s \<and>
          (case map_of s ''data'' of
             Some (PList xs) \<Rightarrow> length xs = n \<and> list_all P xs
           | _ \<Rightarrow> False)
      | _ \<Rightarrow> False)"

definition repaired_data :: "(pyval \<Rightarrow> bool) \<Rightarrow> pyval \<Rightarrow> bool" where
  "repaired_data P data =
     (case data of
        PDict d \<Rightarrow>
          (case map_of d ''labels'' of
             Some labels \<Rightarrow>
               (case py_len labels of
                  Inr n \<Rightarrow>
                    (case map_of d ''datasets'' of
                       Some (PList ds) \<Rightarrow> ds \<noteq> [] \<and> list_all (repaired_dataset P n) ds
                     | _ \<Rightarrow> False)
                | Inl _ \<Rightarrow> False)
           | None \<Rightarrow> False)
      | _ \<Rightarrow> False)"

definition repaired_chart :: "(pyval \<Rightarrow> bool) \<Rightarrow> pyval \<Rightarrow> bool" where
  "repaired_chart P chart =
     (case chart of
        PDict c \<Rightarrow>
          has_key ''type'' c \<and> has_key ''title'' c \<and> has_key ''options'' c \<and>
          (case map_of c ''data'' of Some data \<Rightarrow> repaired_data P data | None \<Rightarrow> False)
      | _ \<Rightarrow> False)"

section \<open>What a second repair changes\<close>

text \<open>
  The document with every integer 0 in the data of a dataset replaced by the float 0.0, and
  nothing else changed: a key that is stored again with the value it has keeps its place.
\<close>

definition refloat_value :: "pyval \<Rightarrow> pyval" where
  "refloat_value x = (if x = PInt 0 then PFloat (Finite 0) else x)"

definition refloat_dataset :: "pyval \<Rightarrow> pyval" where
  "refloat_dataset dataset =
     (case dataset of
        PDict s \<Rightarrow>
          (case map_of s ''data'' of
             Some (PList xs) \<Rightarrow> PDict (AList.update ''data'' (PList (map refloat_value xs)) s)
           | _ \<Rightarrow> dataset)
      | _ \<Rightarrow> dataset)"

definition refloat_data :: "pyval \<Rightarrow> pyval" where
  "refloat_data data =
     (case data of
        PDict d \<Rightarrow>
          (case map_of d ''datasets'' of
             Some (PList ds) \<Rightarrow>
               PDict (AList.update ''datasets'' (PList (map refloat_dataset ds)) d)
           | _ \<Rightarrow> data)
      | _ \<Rightarrow> data)"

definition refloat_chart :: "pyval \<Rightarrow> pyval" where
  "refloat_chart chart =
     (case chart of
        PDict c \<Rightarrow>
          (case map_of c ''data'' of
             Some data \<Rightarrow> PDict (AList.update ''data'' (refloat_data data) c)
           | None \<Rightarrow> chart)
      | _ \<Rightarrow> chart)"

definition refloat :: "pyval \<Rightarrow> pyval" where
  "refloat D =
     (case D of
        PDict cfg \<Rightarrow>
          (case map_of cfg ''charts'' of
             Some (PList cs) \<Rightarrow> PDict (AList.update ''charts'' (PList (map refloat_chart cs)) cfg)
           | _ \<Rightarrow> D)
      | _ \<Rightarrow> D)"

definition nonzero :: "pyval \<Rightarrow> bool" where
  "nonzero x = (x \<noteq> PInt 0)"

section \<open>Properties\<close>

subsection \<open>Exceptions and dictionaries\<close>

lemma bindE_Inr_iff: "bindE m f = Inr y \<longleftrightarrow> (\<exists>x. m = Inr x \<and> f x = Inr y)"
  by (cases m) (simp_all add: bindE_def)

lemma bindE_Inr [simp]: "bindE (Inr x) f = f x"
  by (simp add: bindE_def)

lemma bindE_Inl [simp]: "bindE (Inl e) f = Inl e"
  by (simp add: bindE_def)

lemma has_key_iff: "has_key k kvs \<longleftrightarrow> (\<exists>v. map_of kvs k = Some v)"
  by (cases "map_of kvs k")
    (auto simp: has_key_def map_of_eq_None_iff dest: map_of_SomeD intro: rev_image_eqI)

lemmas observe_defs =
  lookup_def elements_def chart_list_def chart_data_def label_list_def dataset_list_def
  data_list_def data_elements_def lengths_agree_def plugin_def chart_options_def

lemmas schema_defs =
  CHART_CONFIG_SCHEMA_def chart_schema_def chart_data_schema_def dataset_schema_def
  required_def property_def items_def minItems_def maxItems_def minLength_def enum_def
  oneOf_def is_any_type_def chart_types_def has_key_def

lemmas validate_defs =
  validate_config_def validate_body_def validate_def check_chart_def check_dataset_def
  length_message_def numeric_message_def

lemmas scenario_defs =
  sales_document_def make_document_def make_chart_def make_dataset_def quarters_def

subsection \<open>What the schema says of an accepted document\<close>

lemma schema_charts:
  assumes "CHART_CONFIG_SCHEMA D"
  shows "\<exists>kvs. D = PDict kvs \<and> map_of kvs ''charts'' = Some (PList (chart_list D)) \<and>
       1 \<le> length (chart_list D) \<and> length (chart_list D) \<le> 10 \<and>
       list_all chart_schema (chart_list D)"
proof -
  from assms obtain kvs where D: "D = PDict kvs"
    by (cases D) (simp_all add: CHART_CONFIG_SCHEMA_def)
  from assms D obtain c where c: "map_of kvs ''charts'' = Some c"
    by (auto simp: CHART_CONFIG_SCHEMA_def required_def has_key_iff)
  from assms D c
  have sc: "is_type TArray c \<and> minItems 1 c \<and> maxItems 10 c \<and> items chart_schema c"
    by (simp add: CHART_CONFIG_SCHEMA_def property_def)
  then obtain cs where cs: "c = PList cs" by (cases c) simp_all
  with D c have "chart_list D = cs" by (simp add: observe_defs)
  with sc cs D c show ?thesis
    by (simp add: minItems_def maxItems_def items_def)
qed

lemma schema_chart:
  assumes "chart_schema chart"
  shows "\<exists>c d t. chart = PDict c \<and> map_of c ''data'' = Some (PDict d) \<and>
       map_of c ''title'' = Some (PStr t) \<and>
       map_of d ''labels'' = Some (PList (label_list chart)) \<and>
       map_of d ''datasets'' = Some (PList (dataset_list chart)) \<and>
       list_all dataset_schema (dataset_list chart)"
proof -
  from assms obtain c where chart: "chart = PDict c"
    by (cases chart) (simp_all add: chart_schema_def)
  from assms chart obtain dv tv where dv: "map_of c ''data'' = Some dv"
    and tv: "map_of c ''title'' = Some tv"
    by (auto simp: chart_schema_def required_def has_key_iff)
  from assms chart tv obtain t where t: "tv = PStr t"
    by (cases tv) (simp_all add: chart_schema_def property_def)
  from assms chart dv have sd: "chart_data_schema dv"
    by (simp add: chart_schema_def property_def)
  then obtain d where d: "dv = PDict d"
    by (cases dv) (simp_all add: chart_data_schema_def)
  from sd d obtain lv sv where lv: "map_of d ''labels'' = Some lv"
    and sv: "map_of d ''datasets'' = Some sv"
    by (auto simp: chart_data_schema_def required_def has_key_iff)
  from sd d lv obtain ls where ls: "lv = PList ls"
    by (cases lv) (simp_all add: chart_data_schema_def property_def)
  from sd d sv have ss: "is_type TArray sv \<and> items dataset_schema sv"
    by (simp add: chart_data_schema_def property_def)
  then obtain ds where ds: "sv = PList ds" by (cases sv) simp_all
  from chart dv d have cd: "chart_data chart = PDict d" by (simp add: observe_defs)
  from cd lv ls have "label_list chart = ls" by (simp add: observe_defs)
  moreover from cd sv ds have "dataset_list chart = ds" by (simp add: observe_defs)
  ultimately show ?thesis using chart dv d tv t lv ls sv ds ss
    by (simp add: items_def)
qed

lemma schema_dataset:
  assumes "dataset_schema dataset"
  shows "\<exists>s. dataset = PDict s \<and> map_of s ''data'' = Some (PList (data_list dataset)) \<and>
       list_all (is_type TNumber) (data_list dataset)"
proof -
  from assms obtain s where dataset: "dataset = PDict s"
    by (cases dataset) (simp_all add: dataset_schema_def)
  from assms dataset obtain xv where xv: "map_of s ''data'' = Some xv"
    by (auto simp: dataset_schema_def required_def has_key_iff)
  from assms dataset xv have sx: "is_type TArray xv \<and> items (is_type TNumber) xv"
    by (simp add: dataset_schema_def property_def)
  then obtain xs where xs: "xv = PList xs" by (cases xv) simp_all
  with dataset xv have "data_list dataset = xs" by (simp add: observe_defs)
  with sx xs dataset xv show ?thesis by (simp add: items_def)
qed

subsection \<open>The second pass of the validator\<close>

lemma check_datasets_None:
  "check_datasets chart n ds = Inr None \<Longrightarrow> \<forall>d \<in> set ds. check_dataset chart n d = Inr None"
proof (induction ds)
  case Nil
  then show ?case by simp
next
  case (Cons d ds)
  then obtain r where r: "check_dataset chart n d = Inr r"
    and rest: "(case r of Some res \<Rightarrow> Inr (Some res)
                | None \<Rightarrow> check_datasets chart n ds) = Inr None"
    by (auto simp: bindE_Inr_iff)
  from rest have "r = None" and "check_datasets chart n ds = Inr None"
    by (cases r; simp)+
  with r Cons.IH show ?case by simp
qed

lemma check_charts_None:
  "check_charts cs = Inr None \<Longrightarrow> \<forall>c \<in> set cs. check_chart c = Inr None"
proof (induction cs)
  case Nil
  then show ?case by simp
next
  case (Cons c cs)
  then obtain r where r: "check_chart c = Inr r"
    and rest: "(case r of Some res \<Rightarrow> Inr (Some res) | None \<Rightarrow> check_charts cs) = Inr None"
    by (auto simp: bindE_Inr_iff)
  from rest have "r = None" and "check_charts cs = Inr None"
    by (cases r; simp)+
  with r Cons.IH show ?case by simp
qed

lemma check_dataset_False: "check_dataset chart n d = Inr (Some (b, m)) \<Longrightarrow> \<not> b"
  by (auto simp: check_dataset_def bindE_Inr_iff split: if_splits)

lemma check_datasets_False: "check_datasets chart n ds = Inr (Some (b, m)) \<Longrightarrow> \<not> b"
  by (induction ds) (auto simp: bindE_Inr_iff split: option.splits dest: check_dataset_False)

lemma check_chart_False: "check_chart c = Inr (Some (b, m)) \<Longrightarrow> \<not> b"
  by (auto simp: check_chart_def bindE_Inr_iff dest: check_datasets_False)

lemma check_charts_False: "check_charts cs = Inr (Some (b, m)) \<Longrightarrow> \<not> b"
  by (induction cs) (auto simp: bindE_Inr_iff split: option.splits dest: check_chart_False)

lemma check_dataset_None_length:
  assumes "dataset_schema dataset" and "check_dataset chart n dataset = Inr None"
  shows "length (data_list dataset) = n"
proof -
  from schema_dataset [OF assms(1)] obtain s where "dataset = PDict s"
    and "map_of s ''data'' = Some (PList (data_list dataset))" by blast
  with assms(2) show ?thesis
    by (auto simp: check_dataset_def bindE_Inr_iff split: if_splits)
qed

lemma check_chart_None_lengths:
  assumes "chart_schema chart" and "check_chart chart = Inr None"
  shows "lengths_agree chart"
proof -
  from schema_chart [OF assms(1)] obtain c d where chart: "chart = PDict c"
    and d: "map_of c ''data'' = Some (PDict d)"
    and ls: "map_of d ''labels'' = Some (PList (label_list chart))"
    and ds: "map_of d ''datasets'' = Some (PList (dataset_list chart))"
    and sch: "list_all dataset_schema (dataset_list chart)" by blast
  from assms(2) chart d ls ds
  have "check_datasets chart (length (label_list chart)) (dataset_list chart) = Inr None"
    by (simp add: check_chart_def)
  from check_datasets_None [OF this] sch show ?thesis
    by (auto simp: lengths_agree_def list_all_iff dest: check_dataset_None_length)
qed

lemma validate_config_total: "\<exists>b m. validate_config D = Inr (b, m)"
  by (cases "validate_body D") (auto simp: validate_config_def)

lemma validate_config_True:
  assumes "validate_config D = Inr (True, m)"
  shows "m = [] \<and> CHART_CONFIG_SCHEMA D \<and> check_charts (chart_list D) = Inr None"
proof -
  from assms have body: "validate_body D = Inr (True, m)"
    by (cases "validate_body D") (simp_all add: validate_config_def)
  then have sch: "CHART_CONFIG_SCHEMA D"
    by (auto simp: validate_body_def validate_def bindE_Inr_iff split: if_splits)
  from schema_charts [OF sch] obtain kvs where D: "D = PDict kvs"
    and cs: "map_of kvs ''charts'' = Some (PList (chart_list D))" by blast
  from body sch D cs obtain r where r: "check_charts (chart_list D) = Inr r"
    and res: "(case r of Some res \<Rightarrow> Inr res | None \<Rightarrow> Inr (True, [])) =
               (Inr (True, m) :: py_exception + bool \<times> message)"
    by (auto simp: validate_body_def validate_def bindE_Inr_iff)
  show ?thesis
  proof (cases r)
    case None
    with res r sch show ?thesis by auto
  next
    case (Some p)
    with res have "p = (True, m)" by simp
    with r Some have False by (auto dest: check_charts_False)
    then show ?thesis ..
  qed
qed

text \<open>
  C1.  A document that \<open>validate_config\<close> accepts, returning \<^verbatim>\<open>(True, "")\<close>, has between
  1 and 10 charts, and in each chart the data of every dataset is as long as the labels of
  the chart.
\<close>

theorem validate_config_length_invariant:
  assumes "validate_config D = Inr (True, [])"
  shows "1 \<le> length (chart_list D) \<and> length (chart_list D) \<le> 10 \<and>
         list_all lengths_agree (chart_list D)"
proof -
  from validate_config_True [OF assms]
  have sch: "CHART_CONFIG_SCHEMA D" and chk: "check_charts (chart_list D) = Inr None"
    by simp_all
  from schema_charts [OF sch]
  have len: "1 \<le> length (chart_list D)" "length (chart_list D) \<le> 10"
    and all: "list_all chart_schema (chart_list D)" by auto
  from check_charts_None [OF chk] all have "list_all lengths_agree (chart_list D)"
    by (auto simp: list_all_iff intro: check_chart_None_lengths)
  with len show ?thesis by simp
qed

theorem validate_config_length_invariant_witness:
  "validate_config (sales_document [PInt 10, PInt 20, PFloat (Finite 30)]) = Inr (True, []) \<and>
   length (chart_list (sales_document [PInt 10, PInt 20, PFloat (Finite 30)])) = 1 \<and>
   list_all lengths_agree (chart_list (sales_document [PInt 10, PInt 20, PFloat (Finite 30)]))"
proof -
  have ok: "validate_config (sales_document [PInt 10, PInt 20, PFloat (Finite 30)]) =
    Inr (True, [])"
    by (simp add: scenario_defs schema_defs validate_defs)
  from validate_config_length_invariant [OF ok] ok show ?thesis
    by (simp add: scenario_defs observe_defs)
qed

text \<open>
  C8.  \<open>validate_config\<close> returns \<^verbatim>\<open>(True, "")\<close> only if every element of the data
  of every dataset is an int or a float; a document with another element there (a text,
  None, a boolean) gets \<^verbatim>\<open>(False, message)\<close>.
\<close>

theorem validate_config_numeric_data:
  "(validate_config D = Inr (True, []) \<longrightarrow> list_all (is_type TNumber) (data_elements D)) \<and>
   (list_ex (\<lambda>x. \<not> is_type TNumber x) (data_elements D) \<longrightarrow>
      (\<exists>m. validate_config D = Inr (False, m)))"
proof -
  have accepted: "list_all (is_type TNumber) (data_elements D)"
    if ok: "validate_config D = Inr (True, m)" for m
  proof -
    from validate_config_True [OF ok] have "CHART_CONFIG_SCHEMA D" by simp
    from schema_charts [OF this] have cs: "list_all chart_schema (chart_list D)" by blast
    have "list_all (is_type TNumber) (data_list dataset)"
      if "chart \<in> set (chart_list D)" and "dataset \<in> set (dataset_list chart)"
      for chart dataset
    proof -
      from cs that(1) have "chart_schema chart" by (simp add: list_all_iff)
      from schema_chart [OF this] that(2) have "dataset_schema dataset"
        by (auto simp: list_all_iff)
      from schema_dataset [OF this] show ?thesis by blast
    qed
    then show ?thesis
      by (auto simp: data_elements_def list_all_iff)
  qed
  obtain b m where res: "validate_config D = Inr (b, m)"
    using validate_config_total by blast
  have "\<exists>m. validate_config D = Inr (False, m)"
    if bad: "list_ex (\<lambda>x. \<not> is_type TNumber x) (data_elements D)"
  proof (cases b)
    case True
    with res accepted have "list_all (is_type TNumber) (data_elements D)" by simp
    with bad show ?thesis by (auto simp: list_all_iff list_ex_iff)
  next
    case False
    with res show ?thesis by simp
  qed
  with accepted show ?thesis by blast
qed

theorem validate_config_numeric_data_witness:
  "validate_config (sales_document [PInt 10, PInt 20, PFloat (Finite 30)]) = Inr (True, []) \<and>
   list_all (is_type TNumber)
     (data_elements (sales_document [PInt 10, PInt 20, PFloat (Finite 30)])) \<and>
   list_ex (\<lambda>x. \<not> is_type TNumber x)
     (data_elements (sales_document [PStr ''a'', PNone, PBool True])) \<and>
   validate_config (sales_document [PStr ''a'', PNone, PBool True]) =
     Inr (False, [StrOf ValidationError])"
proof -
  have ok: "validate_config (sales_document [PInt 10, PInt 20, PFloat (Finite 30)]) =
    Inr (True, [])"
    by (simp add: scenario_defs schema_defs validate_defs)
  have bad: "list_ex (\<lambda>x. \<not> is_type TNumber x)
    (data_elements (sales_document [PStr ''a'', PNone, PBool True]))"
    by (simp add: scenario_defs observe_defs)
  have "validate_body (sales_document [PStr ''a'', PNone, PBool True]) = Inl ValidationError"
    by (simp add: scenario_defs schema_defs validate_defs)
  then have rejected: "validate_config (sales_document [PStr ''a'', PNone, PBool True]) =
    Inr (False, [StrOf ValidationError])"
    by (simp add: validate_config_def)
  from validate_config_numeric_data [of "sales_document [PInt 10, PInt 20, PFloat (Finite 30)]"]
    validate_config_numeric_data [of "sales_document [PStr ''a'', PNone, PBool True]"]
    ok bad rejected
  show ?thesis by simp
qed

text \<open>
  C10.  \<open>validate_config\<close> raises for no input: it returns a pair for every value, every
  exception of its body becomes \<^verbatim>\<open>(False, str(e))\<close>, and an input that is not a
  mapping is answered so, with the schema's ValidationError.
\<close>

theorem validate_config_never_raises:
  "(\<exists>b m. validate_config D = Inr (b, m)) \<and>
   (\<forall>e. validate_body D = Inl e \<longrightarrow> validate_config D = Inr (False, [StrOf e])) \<and>
   (\<not> is_type TObject D \<longrightarrow> validate_config D = Inr (False, [StrOf ValidationError]))"
proof -
  have "validate_config D = Inr (False, [StrOf ValidationError])" if "\<not> is_type TObject D"
    using that by (simp add: validate_config_def validate_body_def validate_def
        CHART_CONFIG_SCHEMA_def)
  then show ?thesis
    using validate_config_total [of D] by (simp add: validate_config_def)
qed

theorem validate_config_never_raises_witness:
  "validate_body (PList [PInt 1]) = Inl ValidationError \<and>
   \<not> is_type TObject (PList [PInt 1]) \<and>
   validate_config (PList [PInt 1]) = Inr (False, [StrOf ValidationError])"
proof -
  have body: "validate_body (PList [PInt 1]) = Inl ValidationError"
    by (simp add: validate_body_def validate_def CHART_CONFIG_SCHEMA_def)
  have kind: "\<not> is_type TObject (PList [PInt 1])" by simp
  from validate_config_never_raises [of "PList [PInt 1]"] body kind show ?thesis by simp
qed

subsection \<open>Theming a dataset\<close>

lemma has_key_update: "has_key k (AList.update k' v kvs) \<longleftrightarrow> k = k' \<or> has_key k kvs"
  by (auto simp: has_key_iff AList.update_conv')

lemma map_of_update_other: "k \<noteq> k' \<Longrightarrow> map_of (AList.update k' v kvs) k = map_of kvs k"
  by (simp add: AList.update_conv')

lemma map_of_update_same: "map_of (AList.update k v kvs) k = Some v"
  by (simp add: AList.update_conv')

lemma mapE_Inr_iff: "mapE f xs = Inr ys \<longleftrightarrow> list_all2 (\<lambda>x y. f x = Inr y) xs ys"
proof (induction xs arbitrary: ys)
  case Nil
  then show ?case by auto
next
  case (Cons x xs)
  then show ?case by (cases ys) (auto simp: bindE_Inr_iff)
qed

lemma mapE_fixed:
  assumes "\<And>x y. f x = Inr y \<Longrightarrow> f y = Inr y" and "mapE f xs = Inr ys"
  shows "mapE f ys = Inr ys"
  using assms(2) unfolding mapE_Inr_iff
  by (induction xs ys rule: list_all2_induct) (auto dest: assms(1))

lemma for_each_fixed:
  assumes "\<And>x y. body x = Inr y \<Longrightarrow> body y = Inr y" and "for_each body v = Inr v'"
  shows "for_each body v' = Inr v'"
proof (cases v)
  case (PList xs)
  with assms(2) obtain ys where ys: "mapE body xs = Inr ys" and v': "v' = PList ys"
    by (auto simp: for_each_def bindE_Inr_iff)
  from mapE_fixed [OF assms(1) ys] v' show ?thesis
    by (simp add: for_each_def)
qed (use assms(2) in \<open>auto simp: for_each_def bindE_Inr_iff\<close>)

lemma for_each_elements:
  assumes "for_each body v = Inr v'"
  shows "list_all2 (\<lambda>x y. body x = Inr y) (elements (Some v)) (elements (Some v'))"
proof (cases v)
  case (PList xs)
  with assms show ?thesis
    by (auto simp: for_each_def bindE_Inr_iff mapE_Inr_iff elements_def)
qed (use assms in \<open>auto simp: for_each_def bindE_Inr_iff elements_def\<close>)

text \<open>The step \<^verbatim>\<open>if k not in v: v[k] = x\<close>.\<close>

lemma fill_present:
  assumes "py_in k v = Inr h" and "(if \<not> h then py_setitem v k x else Inr v) = Inr v1"
  shows "py_in k v1 = Inr True"
  using assms by (cases v) (auto simp: has_key_update split: if_splits)

lemma fill_keeps_present:
  assumes "py_in k' v = Inr True" and "py_in k v = Inr h"
    and "(if \<not> h then py_setitem v k x else Inr v) = Inr v1"
  shows "py_in k' v1 = Inr True"
  using assms by (cases v) (auto simp: has_key_update split: if_splits)

lemma fill_lookup:
  assumes "py_in k v = Inr h" and "(if \<not> h then py_setitem v k x else Inr v) = Inr v1"
    and "lookup v k' = Some y"
  shows "lookup v1 k' = Some y"
  using assms
  by (cases v) (auto simp: lookup_def has_key_iff AList.update_conv' split: if_splits)


lemma theme_dataset_steps:
  assumes "theme_dataset t d = Inr d'"
  obtains h1 d1 h2 d2 h3 A where
    "py_in ''backgroundColor'' d = Inr h1"
    "(if \<not> h1 then py_setitem d ''backgroundColor'' A else Inr d) = Inr d1"
    "py_in ''borderColor'' d1 = Inr h2"
    "(if \<not> h2 then py_setitem d1 ''borderColor'' (PStr ''#d4af37'') else Inr d1) = Inr d2"
    "py_in ''borderWidth'' d2 = Inr h3"
    "(if \<not> h3 then py_setitem d2 ''borderWidth'' (PInt 2) else Inr d2) = Inr d'"
proof -
  from assms obtain h1 d1 h2 d2 h3 where
    1: "py_in ''backgroundColor'' d = Inr h1"
    and 2: "(if \<not> h1 then
              (if t \<in> set [PStr ''pie'', PStr ''doughnut''] then
                 bindE (py_get d ''data'' (PList [])) (\<lambda>x.
                 bindE (py_len x) (\<lambda>num_items.
                   py_setitem d ''backgroundColor'' (segment_colors num_items)))
               else py_setitem d ''backgroundColor'' (PStr ''rgba(212, 175, 55, 0.6)''))
            else Inr d) = Inr d1"
    and 3: "py_in ''borderColor'' d1 = Inr h2"
    and 4: "(if \<not> h2 then py_setitem d1 ''borderColor'' (PStr ''#d4af37'') else Inr d1) = Inr d2"
    and 5: "py_in ''borderWidth'' d2 = Inr h3"
    and 6: "(if \<not> h3 then py_setitem d2 ''borderWidth'' (PInt 2) else Inr d2) = Inr d'"
    unfolding theme_dataset_def bindE_Inr_iff by blast
  from 2 obtain A where "(if \<not> h1 then py_setitem d ''backgroundColor'' A else Inr d) = Inr d1"
    by (auto simp: bindE_Inr_iff split: if_splits)
  with 1 3 4 5 6 that show ?thesis by blast
qed

lemma theme_dataset_fixed:
  assumes "theme_dataset t d = Inr d'"
  shows "theme_dataset t d' = Inr d'"
proof -
  from assms obtain h1 d1 h2 d2 h3 A where
    1: "py_in ''backgroundColor'' d = Inr h1"
    and 2: "(if \<not> h1 then py_setitem d ''backgroundColor'' A else Inr d) = Inr d1"
    and 3: "py_in ''borderColor'' d1 = Inr h2"
    and 4: "(if \<not> h2 then py_setitem d1 ''borderColor'' (PStr ''#d4af37'') else Inr d1) = Inr d2"
    and 5: "py_in ''borderWidth'' d2 = Inr h3"
    and 6: "(if \<not> h3 then py_setitem d2 ''borderWidth'' (PInt 2) else Inr d2) = Inr d'"
    by (rule theme_dataset_steps)
  have bg: "py_in ''backgroundColor'' d' = Inr True"
    using fill_keeps_present [OF fill_keeps_present [OF fill_present [OF 1 2] 3 4] 5 6] .
  have bc: "py_in ''borderColor'' d' = Inr True"
    using fill_keeps_present [OF fill_present [OF 3 4] 5 6] .
  have bw: "py_in ''borderWidth'' d' = Inr True"
    using fill_present [OF 5 6] .
  show ?thesis
    by (simp add: theme_dataset_def bg bc bw)
qed



subsection \<open>Theming a chart\<close>

lemma theme_datasets_cases:
  assumes "theme_datasets c = Inr c1"
  obtains
    (no_data) kv where "c = PDict kv" "map_of kv ''data'' = None" "c1 = c"
  | (no_datasets) kv d where "c = PDict kv" "map_of kv ''data'' = Some (PDict d)"
      "map_of d ''datasets'' = None" "c1 = c"
  | (datasets) kv d sv sv' where "c = PDict kv" "map_of kv ''data'' = Some (PDict d)"
      "map_of d ''datasets'' = Some sv"
      "for_each (theme_dataset (chart_type_of c)) sv = Inr sv'"
      "c1 = PDict (AList.update ''data'' (PDict (AList.update ''datasets'' sv' d)) kv)"
proof -
  from assms obtain kv where c: "c = PDict kv"
    by (cases c) (auto simp: theme_datasets_def)
  have t: "py_get c ''type'' (PStr ''bar'') = Inr (chart_type_of c)"
    using c by (simp add: chart_type_of_def lookup_def)
  show ?thesis
  proof (cases "map_of kv ''data''")
    case None
    with assms c have "c1 = c"
      by (auto simp: theme_datasets_def bindE_Inr_iff for_each_def write_back_def has_key_iff)
    with c None show ?thesis by (rule no_data)
  next
    case (Some dv)
    with assms c obtain d where d: "dv = PDict d"
      by (cases dv) (auto simp: theme_datasets_def)
    show ?thesis
    proof (cases "map_of d ''datasets''")
      case None
      with assms c Some d have "c1 = c"
        by (auto simp: theme_datasets_def for_each_def write_back_def has_key_iff
            AList.update_triv)
      with c Some d None show ?thesis by (auto intro: no_datasets)
    next
      case sv: (Some sv)
      with assms c Some d t obtain sv' where
        fe: "for_each (theme_dataset (chart_type_of c)) sv = Inr sv'"
        and c1: "c1 = write_back c ''data'' (write_back (PDict d) ''datasets'' sv')"
        by (auto simp: theme_datasets_def bindE_Inr_iff)
      from c1 c Some d sv
      have "c1 = PDict (AList.update ''data'' (PDict (AList.update ''datasets'' sv' d)) kv)"
        by (simp add: write_back_def has_key_iff)
      with c Some d sv fe show ?thesis by (auto intro: datasets)
    qed
  qed
qed

lemma theme_datasets_fixed:
  assumes "theme_datasets c = Inr c1"
  shows "theme_datasets c1 = Inr c1"
  using assms
proof (cases rule: theme_datasets_cases)
  case (datasets kv d sv sv')
  have ty: "chart_type_of c1 = chart_type_of c"
    using datasets(1,5) by (simp add: chart_type_of_def lookup_def map_of_update_other)
  from for_each_fixed [OF theme_dataset_fixed datasets(4)]
  have "for_each (theme_dataset (chart_type_of c)) sv' = Inr sv'" .
  with datasets(1,5) ty show ?thesis
    by (simp add: theme_datasets_def map_of_update_same map_of_update_other write_back_def
        has_key_update chart_type_of_def lookup_def)
qed (use assms in simp_all)

lemma theme_datasets_datasets:
  assumes "theme_datasets c = Inr c1"
  shows "list_all2 (\<lambda>d d'. theme_dataset (chart_type_of c) d = Inr d')
           (dataset_list c) (dataset_list c1)"
  using assms
proof (cases rule: theme_datasets_cases)
  case (no_data kv)
  then show ?thesis by (simp add: observe_defs)
next
  case (no_datasets kv d)
  then show ?thesis by (simp add: observe_defs)
next
  case (datasets kv d sv sv')
  from for_each_elements [OF datasets(4)] datasets(1,2,3,5) show ?thesis
    by (simp add: dataset_list_def chart_data_def lookup_def map_of_update_same)
qed


lemma theme_datasets_labels:
  assumes "theme_datasets c = Inr c1"
  shows "lookup (chart_data c1) ''labels'' = lookup (chart_data c) ''labels''"
  using assms
proof (cases rule: theme_datasets_cases)
  case (datasets kv d sv sv')
  then show ?thesis
    by (simp add: chart_data_def lookup_def map_of_update_same map_of_update_other)
qed simp_all

lemma theme_options_steps:
  assumes "theme_options c = Inr c'"
  obtains kv o0 hp ov1 p0 ht A p1 hl p2 where
    "c = PDict kv"
    "o0 = (case map_of kv ''options'' of None \<Rightarrow> PDict [] | Some v \<Rightarrow> v)"
    "py_in ''plugins'' o0 = Inr hp"
    "(if \<not> hp then py_setitem o0 ''plugins'' (PDict []) else Inr o0) = Inr (PDict ov1)"
    "map_of ov1 ''plugins'' = Some p0"
    "py_in ''title'' p0 = Inr ht"
    "(if \<not> ht then py_setitem p0 ''title'' A else Inr p0) = Inr p1"
    "py_in ''legend'' p1 = Inr hl"
    "(if \<not> hl then py_setitem p1 ''legend'' legend_block else Inr p1) = Inr p2"
    "c' = PDict (AList.update ''options'' (PDict (AList.update ''plugins'' p2 ov1)) kv)"
proof -
  from assms obtain kv where c: "c = PDict kv"
    by (cases c) (auto simp: theme_options_def)
  define o0 where "o0 = (case map_of kv ''options'' of None \<Rightarrow> PDict [] | Some v \<Rightarrow> v)"
  have get: "py_get c ''options'' (PDict []) = Inr o0"
    using c by (simp add: o0_def)
  from assms obtain hp o1 p0 ht p1 hl p2 o2 where
    1: "py_in ''plugins'' o0 = Inr hp"
    and 2: "(if \<not> hp then py_setitem o0 ''plugins'' (PDict []) else Inr o0) = Inr o1"
    and 3: "py_getitem o1 ''plugins'' = Inr p0"
    and 4: "py_in ''title'' p0 = Inr ht"
    and 5: "(if \<not> ht then
              bindE (py_get c ''title'' (PStr ''Chart'')) (\<lambda>title.
                py_setitem p0 ''title'' (title_block title))
            else Inr p0) = Inr p1"
    and 6: "py_in ''legend'' p1 = Inr hl"
    and 7: "(if \<not> hl then py_setitem p1 ''legend'' legend_block else Inr p1) = Inr p2"
    and 8: "py_setitem o1 ''plugins'' p2 = Inr o2"
    and 9: "py_setitem c ''options'' o2 = Inr c'"
    unfolding theme_options_def get bindE_Inr bindE_Inr_iff by blast
  from 3 obtain ov1 where o1: "o1 = PDict ov1" and p0: "map_of ov1 ''plugins'' = Some p0"
    by (cases o1) (auto split: option.splits)
  from 5 obtain A where s5: "(if \<not> ht then py_setitem p0 ''title'' A else Inr p0) = Inr p1"
    by (auto simp: bindE_Inr_iff split: if_splits)
  from 8 9 o1 c
  have "c' = PDict (AList.update ''options'' (PDict (AList.update ''plugins'' p2 ov1)) kv)"
    by auto
  with c o0_def 1 2 [unfolded o1] p0 4 s5 6 7 that show ?thesis by blast
qed

lemma theme_options_fixed:
  assumes "theme_options c = Inr c'"
  shows "theme_options c' = Inr c'"
proof -
  from assms obtain kv o0 hp ov1 p0 ht A p1 hl p2 where
    c: "c = PDict kv"
    and 4: "py_in ''title'' p0 = Inr ht"
    and 5: "(if \<not> ht then py_setitem p0 ''title'' A else Inr p0) = Inr p1"
    and 6: "py_in ''legend'' p1 = Inr hl"
    and 7: "(if \<not> hl then py_setitem p1 ''legend'' legend_block else Inr p1) = Inr p2"
    and c': "c' = PDict (AList.update ''options'' (PDict (AList.update ''plugins'' p2 ov1)) kv)"
    by (rule theme_options_steps)
  have t: "py_in ''title'' p2 = Inr True"
    using fill_keeps_present [OF fill_present [OF 4 5] 6 7] .
  have l: "py_in ''legend'' p2 = Inr True"
    using fill_present [OF 6 7] .
  show ?thesis
    by (simp add: theme_options_def c' map_of_update_same has_key_update t l)
qed

lemma theme_options_keeps:
  assumes "theme_options c = Inr c'" and "k \<noteq> ''options''"
  shows "lookup c' k = lookup c k"
proof -
  from assms(1) obtain kv ov1 p2 where "c = PDict kv"
    and "c' = PDict (AList.update ''options'' (PDict (AList.update ''plugins'' p2 ov1)) kv)"
    by (rule theme_options_steps)
  with assms(2) show ?thesis by (simp add: lookup_def map_of_update_other)
qed





lemma theme_options_then_datasets:
  assumes "theme_datasets c1 = Inr c1" and "theme_options c1 = Inr c2"
  shows "theme_datasets c2 = Inr c2"
proof -
  from assms(2) obtain kv ov1 p2 where c1: "c1 = PDict kv"
    and c2: "c2 = PDict (AList.update ''options'' (PDict (AList.update ''plugins'' p2 ov1)) kv)"
    by (rule theme_options_steps)
  define X where "X = PDict (AList.update ''plugins'' p2 ov1)"
  have ty: "chart_type_of c2 = chart_type_of c1"
    using c1 c2 by (simp add: chart_type_of_def lookup_def map_of_update_other)
  from assms(1) show ?thesis
  proof (cases rule: theme_datasets_cases)
    case (no_data kv')
    with c1 c2 show ?thesis
      by (simp add: theme_datasets_def map_of_update_other for_each_def write_back_def
          has_key_iff)
  next
    case (no_datasets kv' d)
    with c1 c2 show ?thesis
      by (simp add: theme_datasets_def map_of_update_other for_each_def write_back_def
          has_key_iff AList.update_triv)
  next
    case (datasets kv' d sv sv')
    from datasets(1) c1 have kv': "kv' = kv" by simp
    from datasets(5) c1 kv'
    have eq: "kv = AList.update ''data'' (PDict (AList.update ''datasets'' sv' d)) kv" by simp
    then have "map_of kv ''data'' = Some (PDict (AList.update ''datasets'' sv' d))"
      by (metis map_of_update_same)
    with datasets(2) kv' have d: "d = AList.update ''datasets'' sv' d" by simp
    then have "map_of d ''datasets'' = Some sv'" by (metis map_of_update_same)
    with datasets(3) have sv: "sv' = sv" by simp
    have data2: "map_of (AList.update ''options'' X kv) ''data'' = Some (PDict d)"
      using datasets(2) kv' by (simp add: map_of_update_other)
    from datasets(4) sv ty c2 c1
    have fe: "for_each (theme_dataset (chart_type_of c2)) sv = Inr sv" by simp
    have ty2: "py_get c2 ''type'' (PStr ''bar'') = Inr (chart_type_of c2)"
      using c2 by (simp add: chart_type_of_def lookup_def)
    have "theme_datasets c2 =
      Inr (write_back c2 ''data'' (write_back (PDict d) ''datasets'' sv))"
      unfolding theme_datasets_def ty2 bindE_Inr
      using c2 data2 datasets(3) fe by (simp add: X_def)
    moreover have "write_back (PDict d) ''datasets'' sv = PDict d"
      using datasets(3) by (simp add: write_back_def has_key_iff AList.update_triv)
    moreover have "write_back c2 ''data'' (PDict d) = c2"
      using c2 data2 by (simp add: write_back_def has_key_iff AList.update_triv X_def)
    ultimately show ?thesis by simp
  qed
qed

lemma theme_chart_fixed:
  assumes "theme_chart c = Inr c'"
  shows "theme_chart c' = Inr c'"
proof -
  from assms obtain c1 where 1: "theme_datasets c = Inr c1" and 2: "theme_options c1 = Inr c'"
    by (auto simp: theme_chart_def bindE_Inr_iff)
  from theme_options_then_datasets [OF theme_datasets_fixed [OF 1] 2]
    theme_options_fixed [OF 2]
  show ?thesis by (simp add: theme_chart_def)
qed

subsection \<open>Theming a document\<close>

lemma apply_cases:
  assumes "apply_visualization_rules D = Inr D'"
  obtains (unchanged) "D' = D" "chart_list D = []"
  | (charts) kvs cv cv' where "D = PDict kvs" "map_of kvs ''charts'' = Some cv"
      "for_each theme_chart cv = Inr cv'" "D' = PDict (AList.update ''charts'' cv' kvs)"
proof (cases D)
  case (PDict kvs)
  show ?thesis
  proof (cases "map_of kvs ''charts''")
    case None
    with PDict assms have "D' = D" "chart_list D = []"
      by (auto simp: apply_visualization_rules_def has_key_iff observe_defs)
    then show ?thesis by (rule unchanged)
  next
    case (Some cv)
    with PDict assms obtain cv' where "for_each theme_chart cv = Inr cv'"
      and "D' = PDict (AList.update ''charts'' cv' kvs)"
      by (auto simp: apply_visualization_rules_def has_key_iff bindE_Inr_iff write_back_def)
    with PDict Some show ?thesis by (auto intro: charts)
  qed
qed (use assms in \<open>auto simp: apply_visualization_rules_def observe_defs intro: unchanged\<close>)

lemma apply_fixed:
  assumes "apply_visualization_rules D = Inr D'"
  shows "apply_visualization_rules D' = Inr D'"
  using assms
proof (cases rule: apply_cases)
  case unchanged
  with assms show ?thesis by simp
next
  case (charts kvs cv cv')
  from for_each_fixed [OF theme_chart_fixed charts(3)]
  have "for_each theme_chart cv' = Inr cv'" .
  with charts(4) show ?thesis
    by (simp add: apply_visualization_rules_def has_key_update map_of_update_same
        write_back_def)
qed


lemma apply_charts:
  assumes "apply_visualization_rules D = Inr D'"
  shows "list_all2 (\<lambda>c c'. theme_chart c = Inr c') (chart_list D) (chart_list D')"
  using assms
proof (cases rule: apply_cases)
  case unchanged
  then show ?thesis by simp
next
  case (charts kvs cv cv')
  from for_each_elements [OF charts(3)] charts(1,2,4) show ?thesis
    by (simp add: chart_list_def lookup_def map_of_update_same)
qed

lemmas theme_defs =
  apply_visualization_rules_def theme_chart_def theme_datasets_def theme_options_def
  theme_dataset_def for_each_def write_back_def has_key_def segment_colors_def py_repeat_def
  colors_def

lemma pie_themed: "apply_visualization_rules pie_document = Inr pie_document_themed"
  by (simp add: pie_document_def pie_document_themed_def themed_dataset_def scenario_defs theme_defs)


text \<open>
  C4.  Theming a document twice gives what theming it once gives, for every document and so
  for every valid one: the second application changes nothing in the result of the first.
  Where the first application raises there is no result to theme again; both sides are
  that exception.
\<close>

theorem apply_visualization_rules_idempotent:
  "bindE (apply_visualization_rules D) apply_visualization_rules = apply_visualization_rules D"
  by (cases "apply_visualization_rules D") (simp_all add: apply_fixed)

theorem apply_visualization_rules_idempotent_witness:
  "validate_config pie_document = Inr (True, []) \<and>
   apply_visualization_rules pie_document = Inr pie_document_themed \<and>
   apply_visualization_rules pie_document_themed = Inr pie_document_themed"
proof -
  have ok: "validate_config pie_document = Inr (True, [])"
    by (simp add: pie_document_def scenario_defs schema_defs validate_defs)
  from apply_visualization_rules_idempotent [of pie_document] pie_themed ok show ?thesis by simp
qed

lemma nth_py_repeat:
  assumes "i < n * length xs"
  shows "py_repeat xs n ! i = xs ! (i mod length xs)"
  using assms
proof (induction n arbitrary: i)
  case 0
  then show ?case by simp
next
  case (Suc n)
  show ?case
  proof (cases "i < length xs")
    case True
    then show ?thesis by (simp add: py_repeat_def nth_append)
  next
    case False
    with Suc.prems have "i - length xs < n * length xs" by simp
    from Suc.IH [OF this] False show ?thesis
      by (simp add: py_repeat_def nth_append le_mod_geq)
  qed
qed

lemma length_py_repeat: "length (py_repeat xs n) = n * length xs"
  by (induction n) (simp_all add: py_repeat_def)

lemma segment_colors_cyclic:
  "segment_colors n = PList (map (\<lambda>i. colors ! (i mod 6)) [0..<n])"
proof -
  have len: "length colors = 6" by (simp add: colors_def)
  have bound: "n < (n div 6 + 1) * 6"
    using div_mult_mod_eq [of n 6] by simp
  have "take n (py_repeat colors (n div 6 + 1)) = map (\<lambda>i. colors ! (i mod 6)) [0..<n]"
  proof (rule nth_equalityI)
    show "length (take n (py_repeat colors (n div 6 + 1))) =
      length (map (\<lambda>i. colors ! (i mod 6)) [0..<n])"
      using bound by (simp add: length_py_repeat len)
  next
    fix i
    assume "i < length (take n (py_repeat colors (n div 6 + 1)))"
    then have i: "i < n" by simp
    with bound have "i < (n div 6 + 1) * length colors" by (simp add: len)
    from nth_py_repeat [OF this] i show
      "take n (py_repeat colors (n div 6 + 1)) ! i = map (\<lambda>i. colors ! (i mod 6)) [0..<n] ! i"
      by (simp add: len)
  qed
  then show ?thesis by (simp add: segment_colors_def len)
qed

lemma theme_dataset_segments:
  assumes "theme_dataset t (PDict s) = Inr d'"
    and "t = PStr ''pie'' \<or> t = PStr ''doughnut''"
    and "\<not> has_key ''backgroundColor'' s"
    and "map_of s ''data'' = Some (PList xs)"
  shows "lookup d' ''backgroundColor'' = Some (segment_colors (length xs))"
proof -
  define d1 where "d1 = PDict (AList.update ''backgroundColor'' (segment_colors (length xs)) s)"
  from assms obtain h2 d2 h3 where
    3: "py_in ''borderColor'' d1 = Inr h2"
    and 4: "(if \<not> h2 then py_setitem d1 ''borderColor'' (PStr ''#d4af37'') else Inr d1) = Inr d2"
    and 5: "py_in ''borderWidth'' d2 = Inr h3"
    and 6: "(if \<not> h3 then py_setitem d2 ''borderWidth'' (PInt 2) else Inr d2) = Inr d'"
    unfolding theme_dataset_def d1_def by (auto simp: bindE_Inr_iff)
  have "lookup d1 ''backgroundColor'' = Some (segment_colors (length xs))"
    by (simp add: d1_def lookup_def map_of_update_same)
  from fill_lookup [OF 5 6 fill_lookup [OF 3 4 this]] show ?thesis .
qed

text \<open>
  C7.  In a chart of type pie or doughnut, a dataset without \<^verbatim>\<open>backgroundColor\<close>
  gets as \<^verbatim>\<open>backgroundColor\<close> a list with one colour for each element of its data:
  the six colours of the palette in their order, from the first, repeated as often as
  needed.
\<close>

theorem apply_visualization_rules_segment_colors:
  assumes "apply_visualization_rules D = Inr D'"
    and "i < length (chart_list D)"
    and "lookup (chart_list D ! i) ''type'' = Some (PStr ''pie'') \<or>
         lookup (chart_list D ! i) ''type'' = Some (PStr ''doughnut'')"
    and "j < length (dataset_list (chart_list D ! i))"
    and "dataset_list (chart_list D ! i) ! j = PDict s"
    and "\<not> has_key ''backgroundColor'' s"
    and "map_of s ''data'' = Some (PList xs)"
  shows "lookup (dataset_list (chart_list D' ! i) ! j) ''backgroundColor'' =
           Some (PList (map (\<lambda>n. colors ! (n mod 6)) [0..<length xs]))"
proof -
  let ?c = "chart_list D ! i" and ?c' = "chart_list D' ! i"
  from apply_charts [OF assms(1)] assms(2) have "theme_chart ?c = Inr ?c'"
    by (simp add: list_all2_conv_all_nth)
  then obtain c1 where 1: "theme_datasets ?c = Inr c1" and 2: "theme_options c1 = Inr ?c'"
    by (auto simp: theme_chart_def bindE_Inr_iff)
  from theme_options_keeps [OF 2, of "''data''"]
  have same: "dataset_list ?c' = dataset_list c1"
    by (simp add: dataset_list_def chart_data_def)
  from assms(3) have ty: "chart_type_of ?c = PStr ''pie'' \<or> chart_type_of ?c = PStr ''doughnut''"
    by (auto simp: chart_type_of_def)
  from theme_datasets_datasets [OF 1] assms(4)
  have "theme_dataset (chart_type_of ?c) (dataset_list ?c ! j) = Inr (dataset_list c1 ! j)"
    by (simp add: list_all2_conv_all_nth)
  with assms(5) same
  have "theme_dataset (chart_type_of ?c) (PDict s) = Inr (dataset_list ?c' ! j)"
    by simp
  from theme_dataset_segments [OF this ty assms(6,7)] show ?thesis
    by (simp add: segment_colors_cyclic)
qed

theorem apply_visualization_rules_segment_colors_witness:
  "apply_visualization_rules pie_document = Inr pie_document_themed \<and>
   lookup (dataset_list (chart_list pie_document_themed ! 0) ! 0) ''backgroundColor'' =
     Some (PList [PStr ''rgba(212, 175, 55, 0.8)'', PStr ''rgba(255, 215, 0, 0.8)'',
                  PStr ''rgba(212, 175, 55, 0.6)'', PStr ''rgba(255, 215, 0, 0.6)''])"
proof -
  let ?s = "[(''label'', PStr ''Share''), (''data'', PList [PInt 40, PInt 30, PInt 20, PInt 10])]"
  have 2: "0 < length (chart_list pie_document)"
    by (simp add: pie_document_def scenario_defs observe_defs)
  have 3: "lookup (chart_list pie_document ! 0) ''type'' = Some (PStr ''pie'') \<or>
      lookup (chart_list pie_document ! 0) ''type'' = Some (PStr ''doughnut'')"
    by (simp add: pie_document_def scenario_defs observe_defs)
  have 4: "0 < length (dataset_list (chart_list pie_document ! 0))"
    by (simp add: pie_document_def scenario_defs observe_defs)
  have 5: "dataset_list (chart_list pie_document ! 0) ! 0 = PDict ?s"
    by (simp add: pie_document_def scenario_defs observe_defs)
  have 6: "\<not> has_key ''backgroundColor'' ?s" by (simp add: has_key_def)
  have 7: "map_of ?s ''data'' = Some (PList [PInt 40, PInt 30, PInt 20, PInt 10])" by simp
  have upt: "[0..<4] = [0, 1, 2, 3]" by (simp add: upt_rec)
  from apply_visualization_rules_segment_colors [OF pie_themed 2 3 4 5 6 7] pie_themed show ?thesis
    by (simp add: colors_def upt)
qed



subsection \<open>Repairing a dataset\<close>

lemma bit_length_0: "bit_length 0 = 0"
  by (simp add: bit_length.simps [of 0])

lemma float_of_int_0: "float_of_int 0 = Some (Finite 0)"
  by (simp add: float_of_int_def bit_length_0)

lemma coerce_repaired: "coerce parse x = Inr y \<Longrightarrow> repaired_value y"
  by (cases x) (auto simp: coerce_def repaired_value_def split: option.splits if_splits)

lemma coerce_again:
  "repaired_value x \<Longrightarrow> coerce parse x = Inr (refloat_value x) \<and> is_float (refloat_value x)"
  by (cases x)
    (auto simp: coerce_def repaired_value_def float_of_int_0 is_float_def refloat_value_def)

lemma coerce_same: "is_float x \<Longrightarrow> coerce parse x = Inr x"
  by (cases x) (auto simp: coerce_def is_float_def)

lemma mapE_coerce_same: "list_all is_float xs \<Longrightarrow> mapE (coerce parse) xs = Inr xs"
  by (induction xs) (simp_all add: coerce_same)

lemma mapE_coerce_repaired: "mapE (coerce parse) xs = Inr ys \<Longrightarrow> list_all repaired_value ys"
  by (induction xs arbitrary: ys) (auto simp: bindE_Inr_iff dest: coerce_repaired)

lemma mapE_coerce_again:
  "list_all repaired_value xs \<Longrightarrow>
     mapE (coerce parse) xs = Inr (map refloat_value xs) \<and>
     list_all is_float (map refloat_value xs)"
  by (induction xs) (simp_all add: coerce_again)

lemma reconcile_length: "length (reconcile n xs) = n"
  by (simp add: reconcile_def)

lemma reconcile_repaired:
  "list_all repaired_value xs \<Longrightarrow> list_all repaired_value (reconcile n xs)"
  by (auto simp: reconcile_def list_all_iff repaired_value_def dest: in_set_takeD)

lemma reconcile_same: "length xs = n \<Longrightarrow> reconcile n xs = xs"
  by (simp add: reconcile_def)

lemma collectE_from:
  "collectE f xs = Inr ys \<Longrightarrow> \<forall>y \<in> set ys. \<exists>x \<in> set xs. f x = Inr (Some y)"
proof (induction xs arbitrary: ys)
  case Nil
  then show ?case by simp
next
  case (Cons x xs)
  then obtain r kept where r: "f x = Inr r" and kept: "collectE f xs = Inr kept"
    and ys: "ys = (case r of None \<Rightarrow> kept | Some y \<Rightarrow> y # kept)"
    by (auto simp: bindE_Inr_iff)
  from Cons.IH [OF kept] r ys show ?case
    by (cases r) auto
qed

lemma collectE_map:
  "\<forall>x \<in> set xs. f x = Inr (Some (g x)) \<Longrightarrow> collectE f xs = Inr (map g xs)"
  by (induction xs) simp_all

lemma fix_dataset_repaired:
  assumes "fix_dataset parse data dataset = Inr (Some dataset')"
    and "py_get data ''labels'' (PList []) = Inr labels" and "py_len labels = Inr n"
  shows "repaired_dataset repaired_value n dataset'"
proof -
  from assms(1) obtain s0 where dataset: "dataset = PDict s0"
    by (cases dataset) (auto simp: fix_dataset_def)
  define s where "s = (if \<not> has_key ''label'' s0
    then AList.update ''label'' (PStr ''Dataset'') s0 else s0)"
  have label: "has_key ''label'' s" by (simp add: s_def has_key_update)
  from assms(1) dataset obtain xs where xs: "map_of s ''data'' = Some (PList xs)"
    by (auto simp: fix_dataset_def s_def Let_def split: option.splits pyval.splits)
  from assms dataset xs obtain ys where ys: "mapE (coerce parse) xs = Inr ys"
    and res: "dataset' = PDict (AList.update ''data'' (PList (reconcile n ys)) s)"
    unfolding fix_dataset_def s_def [symmetric]
    by (auto simp: Let_def s_def [symmetric] split: sum.splits)
  from reconcile_repaired [OF mapE_coerce_repaired [OF ys]] label res show ?thesis
    by (simp add: repaired_dataset_def has_key_update map_of_update_same reconcile_length)
qed

lemma fix_dataset_again:
  assumes "repaired_dataset repaired_value n dataset"
    and "py_get data ''labels'' (PList []) = Inr labels" and "py_len labels = Inr n"
  shows "fix_dataset parse data dataset = Inr (Some (refloat_dataset dataset)) \<and>
    repaired_dataset is_float n (refloat_dataset dataset)"
proof -
  from assms(1) obtain s where dataset: "dataset = PDict s"
    by (cases dataset) (simp_all add: repaired_dataset_def)
  with assms(1) obtain v where label: "has_key ''label'' s" and v: "map_of s ''data'' = Some v"
    by (cases "map_of s ''data''") (simp_all add: repaired_dataset_def)
  with assms(1) dataset obtain xs where xs: "map_of s ''data'' = Some (PList xs)"
    and len: "length xs = n" and rep: "list_all repaired_value xs"
    by (cases v) (simp_all add: repaired_dataset_def)
  from mapE_coerce_again [OF rep]
  have ys: "mapE (coerce parse) xs = Inr (map refloat_value xs)"
    and fl: "list_all is_float (map refloat_value xs)" by simp_all
  from len have same: "reconcile n (map refloat_value xs) = map refloat_value xs"
    by (simp add: reconcile_same)
  have again: "refloat_dataset dataset =
      PDict (AList.update ''data'' (PList (map refloat_value xs)) s)"
    using dataset xs by (simp add: refloat_dataset_def)
  from dataset label xs ys assms(2,3) same
  have "fix_dataset parse data dataset =
      Inr (Some (PDict (AList.update ''data'' (PList (map refloat_value xs)) s)))"
    by (simp add: fix_dataset_def)
  moreover
  have "repaired_dataset is_float n (PDict (AList.update ''data'' (PList (map refloat_value xs)) s))"
    using label len fl by (simp add: repaired_dataset_def has_key_update map_of_update_same)
  ultimately show ?thesis using again by simp
qed

lemma fix_dataset_same:
  assumes "repaired_dataset is_float n dataset"
    and "py_get data ''labels'' (PList []) = Inr labels" and "py_len labels = Inr n"
  shows "fix_dataset parse data dataset = Inr (Some dataset)"
proof -
  from assms(1) obtain s where dataset: "dataset = PDict s"
    by (cases dataset) (simp_all add: repaired_dataset_def)
  with assms(1) obtain v where label: "has_key ''label'' s" and v: "map_of s ''data'' = Some v"
    by (cases "map_of s ''data''") (simp_all add: repaired_dataset_def)
  with assms(1) dataset obtain xs where xs: "map_of s ''data'' = Some (PList xs)"
    and len: "length xs = n" and fl: "list_all is_float xs"
    by (cases v) (simp_all add: repaired_dataset_def)
  from dataset label xs mapE_coerce_same [OF fl] assms(2,3) reconcile_same [OF len]
  show ?thesis
    by (simp add: fix_dataset_def AList.update_triv)
qed

lemma collectE_same:
  "\<forall>x \<in> set xs. f x = Inr (Some x) \<Longrightarrow> collectE f xs = Inr xs"
  by (induction xs) simp_all

subsection \<open>Repairing a chart\<close>

lemma fix_chart_repaired:
  assumes "fix_chart parse title_case chart = Inr (Some chart')"
  shows "repaired_chart repaired_value chart'"
proof -
  from assms obtain c0 where chart: "chart = PDict c0"
    by (cases chart) (auto simp: fix_chart_def)
  from assms chart have keys: "has_key ''type'' c0" "has_key ''data'' c0"
    by (auto simp: fix_chart_def split: if_splits)
  from assms chart keys obtain chart1 data has_labels has_datasets datasets ds fixed data1
    chart2 has_options where
    1: "(if \<not> has_key ''title'' c0 then
           bindE (py_getitem chart ''type'') (\<lambda>chart_type.
           bindE (default_title title_case chart_type) (\<lambda>title. py_setitem chart ''title'' title))
         else Inr chart) = Inr chart1"
    and 2: "py_get chart1 ''data'' (PDict []) = Inr data"
    and 3: "py_in ''labels'' data = Inr has_labels" "has_labels"
    and 4: "py_in ''datasets'' data = Inr has_datasets" "has_datasets"
    and 5: "py_get data ''datasets'' (PList []) = Inr datasets"
    and 6: "py_iter datasets = Inr ds"
    and 7: "collectE (fix_dataset parse data) ds = Inr fixed" "fixed \<noteq> []"
    and 8: "py_setitem data ''datasets'' (PList fixed) = Inr data1"
    and 9: "py_setitem chart1 ''data'' data1 = Inr chart2"
    and 10: "py_in ''options'' chart2 = Inr has_options"
    and 11: "(if \<not> has_options then
           bindE (py_getitem chart2 ''title'') (\<lambda>title.
             py_setitem chart2 ''options'' (default_options title))
         else Inr chart2) = Inr chart'"
    unfolding fix_chart_def
    by (auto simp: bindE_Inr_iff split: if_splits)
  from 1 chart obtain c1 where c1: "chart1 = PDict c1"
    and k1: "has_key ''type'' c1" "has_key ''title'' c1"
    using keys by (auto simp: bindE_Inr_iff has_key_update split: if_splits)
  from 5 obtain d where d: "data = PDict d" by (cases data) auto
  from 3 d obtain labels where labels: "map_of d ''labels'' = Some labels"
    by (auto simp: has_key_iff)
  then have get: "py_get data ''labels'' (PList []) = Inr labels"
    using d by simp
  from 8 d have data1: "data1 = PDict (AList.update ''datasets'' (PList fixed) d)" by auto
  from 9 c1 have c2: "chart2 = PDict (AList.update ''data'' data1 c1)" by auto
  from 10 11 c2 obtain c3 where c3: "chart' = PDict c3"
    and opts: "has_key ''options'' c3"
    and keep: "\<And>k. k \<noteq> ''options'' \<Longrightarrow> map_of c3 k = map_of (AList.update ''data'' data1 c1) k"
    by (auto simp: bindE_Inr_iff has_key_update map_of_update_other split: if_splits)
  have k3: "has_key ''type'' c3" "has_key ''title'' c3" "map_of c3 ''data'' = Some data1"
    using keep k1 by (simp_all add: has_key_iff map_of_update_other map_of_update_same)
  have "repaired_data repaired_value data1"
  proof (cases "py_len labels")
    case (Inr n)
    from collectE_from [OF 7(1)]
    have "list_all (repaired_dataset repaired_value n) fixed"
      by (auto simp: list_all_iff intro: fix_dataset_repaired [OF _ get Inr])
    with labels Inr 7(2) data1 show ?thesis
      by (simp add: repaired_data_def map_of_update_other map_of_update_same)
  next
    case (Inl e)
    from 7(2) obtain y where "y \<in> set fixed" by (cases fixed) auto
    with collectE_from [OF 7(1)] obtain x where "fix_dataset parse data x = Inr (Some y)"
      by blast
    with get Inl have False
      by (auto simp: fix_dataset_def Let_def split: pyval.splits option.splits sum.splits)
    then show ?thesis ..
  qed
  with c3 opts k3 show ?thesis by (simp add: repaired_chart_def)
qed

lemma repaired_chart_parts:
  assumes "repaired_chart P chart"
  obtains c d labels n ds where "chart = PDict c"
    "has_key ''type'' c" "has_key ''title'' c" "has_key ''options'' c"
    "map_of c ''data'' = Some (PDict d)" "map_of d ''labels'' = Some labels"
    "py_len labels = Inr n" "map_of d ''datasets'' = Some (PList ds)" "ds \<noteq> []"
    "list_all (repaired_dataset P n) ds"
proof -
  from assms obtain c where chart: "chart = PDict c"
    by (cases chart) (simp_all add: repaired_chart_def)
  with assms obtain data where keys: "has_key ''type'' c" "has_key ''title'' c"
    "has_key ''options'' c" and data: "map_of c ''data'' = Some data"
    and rd: "repaired_data P data"
    by (cases "map_of c ''data''") (simp_all add: repaired_chart_def)
  from rd obtain d where d: "data = PDict d"
    by (cases data) (simp_all add: repaired_data_def)
  with rd obtain labels where labels: "map_of d ''labels'' = Some labels"
    by (cases "map_of d ''labels''") (simp_all add: repaired_data_def)
  with rd d obtain n where n: "py_len labels = Inr n"
    by (cases "py_len labels") (simp_all add: repaired_data_def)
  with rd d labels obtain sv where sv: "map_of d ''datasets'' = Some sv"
    by (cases "map_of d ''datasets''") (simp_all add: repaired_data_def)
  with rd d labels n obtain ds where ds: "sv = PList ds" and ne: "ds \<noteq> []"
    and all: "list_all (repaired_dataset P n) ds"
    by (cases sv) (simp_all add: repaired_data_def)
  from chart keys data d labels n sv ds ne all that show ?thesis by blast
qed

lemma fix_chart_again:
  assumes "repaired_chart repaired_value chart"
  shows "fix_chart parse title_case chart = Inr (Some (refloat_chart chart)) \<and>
    repaired_chart is_float (refloat_chart chart)"
proof -
  from assms obtain c d labels n ds where chart: "chart = PDict c"
    and keys: "has_key ''type'' c" "has_key ''title'' c" "has_key ''options'' c"
    and data: "map_of c ''data'' = Some (PDict d)"
    and labels: "map_of d ''labels'' = Some labels" and n: "py_len labels = Inr n"
    and sv: "map_of d ''datasets'' = Some (PList ds)" and ne: "ds \<noteq> []"
    and all: "list_all (repaired_dataset repaired_value n) ds"
    by (rule repaired_chart_parts)
  have get: "py_get (PDict d) ''labels'' (PList []) = Inr labels"
    using labels by simp
  have each: "\<forall>x \<in> set ds. fix_dataset parse (PDict d) x = Inr (Some (refloat_dataset x))"
    and fl: "list_all (repaired_dataset is_float n) (map refloat_dataset ds)"
    using all fix_dataset_again [OF _ get n] by (auto simp: list_all_iff)
  from collectE_map [OF each]
  have fixed: "collectE (fix_dataset parse (PDict d)) ds = Inr (map refloat_dataset ds)" .
  define data1 where "data1 = PDict (AList.update ''datasets'' (PList (map refloat_dataset ds)) d)"
  have again: "refloat_chart chart = PDict (AList.update ''data'' data1 c)"
    using chart data sv by (simp add: refloat_chart_def refloat_data_def data1_def)
  have has_data: "has_key ''data'' c" using data by (simp add: has_key_iff)
  have run: "fix_chart parse title_case chart = Inr (Some (PDict (AList.update ''data'' data1 c)))"
    using chart keys has_data data labels sv fixed ne
    by (simp add: fix_chart_def has_key_iff AList.update_conv' data1_def)
  have "repaired_data is_float data1"
    using labels n ne fl
    by (simp add: repaired_data_def data1_def map_of_update_same map_of_update_other)
  with keys have "repaired_chart is_float (PDict (AList.update ''data'' data1 c))"
    by (simp add: repaired_chart_def has_key_update map_of_update_same)
  with run again show ?thesis by simp
qed

lemma fix_chart_same:
  assumes "repaired_chart is_float chart"
  shows "fix_chart parse title_case chart = Inr (Some chart)"
proof -
  from assms obtain c d labels n ds where chart: "chart = PDict c"
    and keys: "has_key ''type'' c" "has_key ''title'' c" "has_key ''options'' c"
    and data: "map_of c ''data'' = Some (PDict d)"
    and labels: "map_of d ''labels'' = Some labels" and n: "py_len labels = Inr n"
    and sv: "map_of d ''datasets'' = Some (PList ds)" and ne: "ds \<noteq> []"
    and all: "list_all (repaired_dataset is_float n) ds"
    by (rule repaired_chart_parts)
  have get: "py_get (PDict d) ''labels'' (PList []) = Inr labels"
    using labels by simp
  have "\<forall>x \<in> set ds. fix_dataset parse (PDict d) x = Inr (Some x)"
    using all fix_dataset_same [OF _ get n] by (auto simp: list_all_iff)
  then have fixed: "collectE (fix_dataset parse (PDict d)) ds = Inr ds"
    by (rule collectE_same)
  have has_data: "has_key ''data'' c" using data by (simp add: has_key_iff)
  show ?thesis
    using chart keys has_data data labels sv fixed ne
    by (auto simp: fix_chart_def has_key_iff AList.update_triv)
qed

lemma fix_common_issues_cases:
  assumes "fix_common_issues parse title_case D = Inr R"
  obtains (other) "R = D" "\<And>kvs. D \<noteq> PDict kvs"
  | (mapping) cfg cs fixed where "D = PDict cfg"
      "collectE (fix_chart parse title_case) cs = Inr fixed"
      "R = PDict (AList.update ''charts'' (PList fixed) cfg)"
proof (cases D)
  case (PDict cfg)
  with assms obtain cs fixed where "collectE (fix_chart parse title_case) cs = Inr fixed"
    and "R = PDict (AList.update ''charts'' (PList fixed) cfg)"
    by (auto simp: fix_common_issues_def bindE_Inr_iff)
  with PDict show ?thesis by (auto intro: mapping)
qed (use assms in \<open>auto simp: fix_common_issues_def intro: other\<close>)


lemma bit_length_le: "n < 2 ^ k \<Longrightarrow> bit_length n \<le> k"
proof (induction k arbitrary: n)
  case 0
  then show ?case by (simp add: bit_length.simps [of 0])
next
  case (Suc k)
  then have "n div 2 < 2 ^ k" by auto
  from Suc.IH [OF this] show ?case by (simp add: bit_length.simps [of n])
qed

lemma float_of_int_exact:
  assumes "\<bar>i\<bar> < 2 ^ 53"
  shows "float_of_int i = Some (Finite (of_int i))"
proof -
  define a where "a = nat \<bar>i\<bar>"
  from assms have a: "a < 2 ^ 53" by (simp add: a_def nat_less_iff)
  from bit_length_le [OF this] have sh: "bit_length a - 53 = 0" by simp
  have "(2::nat) ^ 53 \<le> 2 ^ 1024" by (rule power_increasing) simp_all
  with a have small: "\<not> 2 ^ 1024 \<le> a" by linarith
  have val: "(if i < 0 then - of_nat a else of_nat a) = (of_int i :: rat)"
    by (simp add: a_def)
  show ?thesis
    unfolding float_of_int_def a_def [symmetric] Let_def sh
    using small val by (auto split: if_splits)
qed

lemmas fix_defs =
  fix_common_issues_def fix_chart_def fix_dataset_def coerce_def reconcile_def
  default_title_def default_options_def has_key_def


lemma enum_PStr: "enum names (PStr s) \<longleftrightarrow> s \<in> set names"
  by (auto simp: enum_def)

lemmas schema_shape_defs =
  CHART_CONFIG_SCHEMA_def chart_schema_def chart_data_schema_def dataset_schema_def
  required_def property_def items_def minItems_def maxItems_def minLength_def
  oneOf_def is_any_type_def has_key_def enum_PStr

lemmas repair_scenario_defs =
  make_document_def make_chart_def make_dataset_def make_repaired_chart_def quarters_def
  default_options_def


subsection \<open>Repairing a document\<close>

lemma refloat_value_same: "nonzero x \<Longrightarrow> refloat_value x = x"
  by (simp add: nonzero_def refloat_value_def)

lemma refloat_dataset_same:
  assumes "list_all nonzero (data_list dataset)"
  shows "refloat_dataset dataset = dataset"
proof (cases dataset)
  case (PDict s)
  show ?thesis
  proof (cases "map_of s ''data''")
    case None
    with PDict show ?thesis by (simp add: refloat_dataset_def)
  next
    case (Some v)
    show ?thesis
    proof (cases v)
      case (PList xs)
      with PDict Some assms have "list_all nonzero xs" by (simp add: observe_defs)
      then have "map refloat_value xs = xs"
        by (auto simp: list_all_iff intro: map_idI refloat_value_same)
      with PDict Some PList show ?thesis
        by (simp add: refloat_dataset_def AList.update_triv)
    qed (use PDict Some in \<open>simp_all add: refloat_dataset_def\<close>)
  qed
qed (simp_all add: refloat_dataset_def)

lemma refloat_chart_same:
  assumes "\<forall>dataset \<in> set (dataset_list chart). list_all nonzero (data_list dataset)"
  shows "refloat_chart chart = chart"
proof (cases chart)
  case (PDict c)
  show ?thesis
  proof (cases "map_of c ''data''")
    case None
    with PDict show ?thesis by (simp add: refloat_chart_def)
  next
    case (Some dv)
    have "refloat_data dv = dv"
    proof (cases dv)
      case d: (PDict d)
      show ?thesis
      proof (cases "map_of d ''datasets''")
        case None
        with d show ?thesis by (simp add: refloat_data_def)
      next
        case sv: (Some sv)
        show ?thesis
        proof (cases sv)
          case (PList ds)
          with PDict Some d sv have "dataset_list chart = ds" by (simp add: observe_defs)
          with assms have "map refloat_dataset ds = ds"
            by (auto intro: map_idI refloat_dataset_same)
          with d sv PList show ?thesis by (simp add: refloat_data_def AList.update_triv)
        qed (use d sv in \<open>simp_all add: refloat_data_def\<close>)
      qed
    qed (simp_all add: refloat_data_def)
    with PDict Some show ?thesis by (simp add: refloat_chart_def AList.update_triv)
  qed
qed (simp_all add: refloat_chart_def)

lemma refloat_same:
  assumes "list_all nonzero (data_elements D)"
  shows "refloat D = D"
proof (cases D)
  case (PDict cfg)
  show ?thesis
  proof (cases "map_of cfg ''charts''")
    case None
    with PDict show ?thesis by (simp add: refloat_def)
  next
    case (Some cv)
    show ?thesis
    proof (cases cv)
      case (PList cs)
      with PDict Some have "chart_list D = cs" by (simp add: observe_defs)
      with assms have "\<forall>chart \<in> set cs. \<forall>dataset \<in> set (dataset_list chart).
          list_all nonzero (data_list dataset)"
        by (auto simp: data_elements_def list_all_iff)
      then have "map refloat_chart cs = cs"
        by (auto intro: map_idI refloat_chart_same)
      with PDict Some PList show ?thesis by (simp add: refloat_def AList.update_triv)
    qed (use PDict Some in \<open>simp_all add: refloat_def\<close>)
  qed
qed (simp_all add: refloat_def)

lemma fix_common_issues_again:
  assumes "fix_common_issues parse title_case D = Inr R"
  shows "fix_common_issues parse title_case R = Inr (refloat R) \<and>
    fix_common_issues parse title_case (refloat R) = Inr (refloat R)"
  using assms
proof (cases rule: fix_common_issues_cases)
  case other
  then have "refloat D = D" and "fix_common_issues parse title_case D = Inr D"
    by (cases D; auto simp: refloat_def fix_common_issues_def)+
  with other show ?thesis by simp
next
  case (mapping cfg cs fixed)
  from collectE_from [OF mapping(2)]
  have "\<forall>y \<in> set fixed. repaired_chart repaired_value y"
    by (auto dest: fix_chart_repaired)
  then have each: "\<forall>x \<in> set fixed.
      fix_chart parse title_case x = Inr (Some (refloat_chart x))"
    and settled: "\<forall>x \<in> set fixed. repaired_chart is_float (refloat_chart x)"
    using fix_chart_again by blast+
  from collectE_map [OF each]
  have again: "collectE (fix_chart parse title_case) fixed = Inr (map refloat_chart fixed)" .
  from settled have "\<forall>x \<in> set (map refloat_chart fixed).
      fix_chart parse title_case x = Inr (Some x)"
    using fix_chart_same by auto
  then have third: "collectE (fix_chart parse title_case) (map refloat_chart fixed) =
      Inr (map refloat_chart fixed)"
    by (rule collectE_same)
  let ?kvs = "AList.update ''charts'' (PList fixed) cfg"
  let ?R' = "PDict (AList.update ''charts'' (PList (map refloat_chart fixed)) ?kvs)"
  have R': "refloat R = ?R'"
    using mapping(3) by (simp add: refloat_def map_of_update_same)
  have "fix_common_issues parse title_case R = Inr ?R'"
    using mapping(3) again by (simp add: fix_common_issues_def map_of_update_same)
  moreover have "fix_common_issues parse title_case ?R' = Inr ?R'"
    using third by (simp add: fix_common_issues_def map_of_update_same)
  ultimately show ?thesis using R' by simp
qed

text \<open>
  C9, as the code has it.  \<open>fix_common_issues\<close> run on its own result \<open>R\<close> returns \<open>R\<close>
  with every integer 0 in the data of a dataset replaced by the float 0.0, and nothing else
  changed: the first run writes the integer 0 for None and as padding, and the second
  applies \<^verbatim>\<open>float\<close> to it.  That second result is a fixed point, and so is \<open>R\<close> itself
  when the data of its datasets hold no integer 0.
\<close>

theorem fix_common_issues_second_run:
  assumes "fix_common_issues parse title_case D = Inr R"
  shows "fix_common_issues parse title_case R = Inr (refloat R) \<and>
    fix_common_issues parse title_case (refloat R) = Inr (refloat R) \<and>
    (list_all nonzero (data_elements R) \<longrightarrow> fix_common_issues parse title_case R = Inr R)"
proof -
  note again = fix_common_issues_again [OF assms]
  have "fix_common_issues parse title_case R = Inr R" if "list_all nonzero (data_elements R)"
    using again refloat_same [OF that] by simp
  with again show ?thesis by simp
qed

theorem fix_common_issues_second_run_witness:
  "fix_common_issues (\<lambda>s. None) (\<lambda>s. s) (sales_document [PInt 10, PInt 20]) =
     Inr (repaired_sales_document [PFloat (Finite 10), PFloat (Finite 20), PInt 0]) \<and>
   fix_common_issues (\<lambda>s. None) (\<lambda>s. s)
       (repaired_sales_document [PFloat (Finite 10), PFloat (Finite 20), PInt 0]) =
     Inr (repaired_sales_document [PFloat (Finite 10), PFloat (Finite 20), PFloat (Finite 0)]) \<and>
   fix_common_issues (\<lambda>s. None) (\<lambda>s. s)
       (repaired_sales_document [PFloat (Finite 10), PFloat (Finite 20), PFloat (Finite 0)]) =
     Inr (repaired_sales_document [PFloat (Finite 10), PFloat (Finite 20), PFloat (Finite 0)]) \<and>
   fix_common_issues (\<lambda>s. None) (\<lambda>s. s) (sales_document [PInt 10, PInt 20, PInt 30]) =
     Inr (repaired_sales_document [PFloat (Finite 10), PFloat (Finite 20), PFloat (Finite 30)]) \<and>
   list_all nonzero
     (data_elements
        (repaired_sales_document [PFloat (Finite 10), PFloat (Finite 20), PFloat (Finite 30)])) \<and>
   fix_common_issues (\<lambda>s. None) (\<lambda>s. s)
       (repaired_sales_document [PFloat (Finite 10), PFloat (Finite 20), PFloat (Finite 30)]) =
     Inr (repaired_sales_document [PFloat (Finite 10), PFloat (Finite 20), PFloat (Finite 30)])"
proof -
  have f10: "float_of_int 10 = Some (Finite 10)" and f20: "float_of_int 20 = Some (Finite 20)"
    and f30: "float_of_int 30 = Some (Finite 30)"
    using float_of_int_exact [of 10] float_of_int_exact [of 20] float_of_int_exact [of 30]
    by simp_all
  have short: "fix_common_issues (\<lambda>s. None) (\<lambda>s. s) (sales_document [PInt 10, PInt 20]) =
     Inr (repaired_sales_document [PFloat (Finite 10), PFloat (Finite 20), PInt 0])"
    by (simp add: sales_document_def repaired_sales_document_def repair_scenario_defs
        fix_common_issues_def fix_chart_def fix_dataset_def coerce_def reconcile_def
        has_key_def f10 f20)
  have full: "fix_common_issues (\<lambda>s. None) (\<lambda>s. s) (sales_document [PInt 10, PInt 20, PInt 30]) =
     Inr (repaired_sales_document [PFloat (Finite 10), PFloat (Finite 20), PFloat (Finite 30)])"
    by (simp add: sales_document_def repaired_sales_document_def repair_scenario_defs
        fix_common_issues_def fix_chart_def fix_dataset_def coerce_def reconcile_def
        has_key_def f10 f20 f30)
  have changed: "refloat (repaired_sales_document [PFloat (Finite 10), PFloat (Finite 20), PInt 0]) =
      repaired_sales_document [PFloat (Finite 10), PFloat (Finite 20), PFloat (Finite 0)]"
    by (simp add: repaired_sales_document_def repair_scenario_defs refloat_def
        refloat_chart_def refloat_data_def refloat_dataset_def refloat_value_def)
  have no_zero: "list_all nonzero
     (data_elements
        (repaired_sales_document [PFloat (Finite 10), PFloat (Finite 20), PFloat (Finite 30)]))"
    by (simp add: repaired_sales_document_def repair_scenario_defs observe_defs nonzero_def)
  note run = fix_common_issues_second_run [OF short]
  from run [THEN conjunct1] changed
  have second: "fix_common_issues (\<lambda>s. None) (\<lambda>s. s)
       (repaired_sales_document [PFloat (Finite 10), PFloat (Finite 20), PInt 0]) =
     Inr (repaired_sales_document [PFloat (Finite 10), PFloat (Finite 20), PFloat (Finite 0)])"
    by simp
  from run [THEN conjunct2, THEN conjunct1] changed
  have third: "fix_common_issues (\<lambda>s. None) (\<lambda>s. s)
       (repaired_sales_document [PFloat (Finite 10), PFloat (Finite 20), PFloat (Finite 0)]) =
     Inr (repaired_sales_document [PFloat (Finite 10), PFloat (Finite 20), PFloat (Finite 0)])"
    by simp
  from fix_common_issues_second_run [OF full, THEN conjunct2, THEN conjunct2, rule_format,
    OF no_zero]
  have same: "fix_common_issues (\<lambda>s. None) (\<lambda>s. s)
       (repaired_sales_document [PFloat (Finite 10), PFloat (Finite 20), PFloat (Finite 30)]) =
     Inr (repaired_sales_document [PFloat (Finite 10), PFloat (Finite 20), PFloat (Finite 30)])" .
  from short second third full no_zero same show ?thesis by (intro conjI)
qed

text \<open>
  C9 as it is stated, that the second run returns \<open>R\<close> itself, fails.  The result of
  repairing scenario B has the data \<^verbatim>\<open>[10.0, 20.0, 0]\<close>, and the second run makes
  them \<^verbatim>\<open>[10.0, 20.0, 0.0]\<close>.
\<close>

theorem fix_common_issues_not_fixed_point:
  "fix_common_issues (\<lambda>s. None) (\<lambda>s. s) (sales_document [PInt 10, PInt 20]) =
     Inr (repaired_sales_document [PFloat (Finite 10), PFloat (Finite 20), PInt 0]) \<and>
   fix_common_issues (\<lambda>s. None) (\<lambda>s. s)
       (repaired_sales_document [PFloat (Finite 10), PFloat (Finite 20), PInt 0]) =
     Inr (repaired_sales_document [PFloat (Finite 10), PFloat (Finite 20), PFloat (Finite 0)]) \<and>
   fix_common_issues (\<lambda>s. None) (\<lambda>s. s)
       (repaired_sales_document [PFloat (Finite 10), PFloat (Finite 20), PInt 0]) \<noteq>
     Inr (repaired_sales_document [PFloat (Finite 10), PFloat (Finite 20), PInt 0])"
proof -
  have f10: "float_of_int 10 = Some (Finite 10)" and f20: "float_of_int 20 = Some (Finite 20)"
    using float_of_int_exact [of 10] float_of_int_exact [of 20] by simp_all
  have first: "fix_common_issues (\<lambda>s. None) (\<lambda>s. s) (sales_document [PInt 10, PInt 20]) =
     Inr (repaired_sales_document [PFloat (Finite 10), PFloat (Finite 20), PInt 0])"
    by (simp add: sales_document_def repaired_sales_document_def repair_scenario_defs
        fix_common_issues_def fix_chart_def fix_dataset_def coerce_def reconcile_def
        has_key_def f10 f20)
  have second: "fix_common_issues (\<lambda>s. None) (\<lambda>s. s)
       (repaired_sales_document [PFloat (Finite 10), PFloat (Finite 20), PInt 0]) =
     Inr (repaired_sales_document [PFloat (Finite 10), PFloat (Finite 20), PFloat (Finite 0)])"
    by (simp add: repaired_sales_document_def repair_scenario_defs fix_common_issues_def
        fix_chart_def fix_dataset_def coerce_def reconcile_def has_key_def float_of_int_0)
  have differ: "repaired_sales_document [PFloat (Finite 10), PFloat (Finite 20), PFloat (Finite 0)] \<noteq>
      repaired_sales_document [PFloat (Finite 10), PFloat (Finite 20), PInt 0]"
    by (simp add: repaired_sales_document_def repair_scenario_defs)
  from first second differ show ?thesis by simp
qed

text \<open>
  C3.  \<open>fix_common_issues\<close> does raise.  For a chart without title it calls
  \<^verbatim>\<open>chart['type'].title()\<close>, and a type that is not a string has no such method: the
  AttributeError leaves the function.
\<close>

theorem fix_common_issues_raises_on_malformed_chart:
  "fix_common_issues parse title_case malformed_document = Inl AttributeError"
  by (simp add: malformed_document_def fix_defs)

text \<open>
  C2.  Scenario B: three labels and one dataset with data \<^verbatim>\<open>[10, 20]\<close>, in a document
  that is otherwise as the schema asks.  \<open>validate_config\<close> returns False with the message
  \<^verbatim>\<open>Data length (2) doesn't match labels length (3) in chart '<title>'\<close>;
  \<open>fix_common_issues\<close> makes the data \<^verbatim>\<open>[10.0, 20.0, 0]\<close>, whose elements are those
  of \<^verbatim>\<open>[10, 20, 0]\<close> for \<^verbatim>\<open>==\<close>, and adds the default options; \<open>validate_config\<close>
  accepts the result.
\<close>

theorem fix_common_issues_pads_short_data:
  assumes "explanation \<noteq> []" and "title \<noteq> []" and "chart_type \<in> set chart_types"
  shows
    "validate_config
       (make_document explanation
          [make_chart chart_type title quarters [make_dataset label [PInt 10, PInt 20]]]) =
       Inr (False,
            [Lit ''Data length ('', Fmt (PInt 2), Lit '') doesn't match labels length ('',
             Fmt (PInt 3), Lit ('') in chart '' @ [CHR 0x27]), Fmt (PStr title),
             Lit [CHR 0x27]]) \<and>
     fix_common_issues parse title_case
       (make_document explanation
          [make_chart chart_type title quarters [make_dataset label [PInt 10, PInt 20]]]) =
       Inr (make_document explanation
          [make_repaired_chart chart_type title quarters
             [make_dataset label [PFloat (Finite 10), PFloat (Finite 20), PInt 0]]]) \<and>
     list_all2 equal_numbers [PFloat (Finite 10), PFloat (Finite 20), PInt 0]
       [PInt 10, PInt 20, PInt 0] \<and>
     validate_config
       (make_document explanation
          [make_repaired_chart chart_type title quarters
             [make_dataset label [PFloat (Finite 10), PFloat (Finite 20), PInt 0]]]) =
       Inr (True, [])"
proof -
  from assms have t: "Suc 0 \<le> length title" and e: "Suc 0 \<le> length explanation"
    by (simp_all add: Suc_le_eq)
  have first: "validate_config
       (make_document explanation
          [make_chart chart_type title quarters [make_dataset label [PInt 10, PInt 20]]]) =
       Inr (False,
            [Lit ''Data length ('', Fmt (PInt 2), Lit '') doesn't match labels length ('',
             Fmt (PInt 3), Lit ('') in chart '' @ [CHR 0x27]), Fmt (PStr title),
             Lit [CHR 0x27]])"
    using t e assms(3)
    by (simp add: repair_scenario_defs schema_shape_defs validate_config_def validate_body_def
        validate_def check_chart_def check_dataset_def length_message_def apostrophe_def)
  have f10: "float_of_int 10 = Some (Finite 10)" and f20: "float_of_int 20 = Some (Finite 20)"
    using float_of_int_exact [of 10] float_of_int_exact [of 20] by simp_all
  have repair: "fix_common_issues parse title_case
       (make_document explanation
          [make_chart chart_type title quarters [make_dataset label [PInt 10, PInt 20]]]) =
       Inr (make_document explanation
          [make_repaired_chart chart_type title quarters
             [make_dataset label [PFloat (Finite 10), PFloat (Finite 20), PInt 0]]])"
    by (simp add: repair_scenario_defs fix_common_issues_def fix_chart_def fix_dataset_def
        coerce_def reconcile_def has_key_def f10 f20)
  have equal: "list_all2 equal_numbers [PFloat (Finite 10), PFloat (Finite 20), PInt 0]
       [PInt 10, PInt 20, PInt 0]"
    by (simp add: equal_numbers_def)
  have second: "validate_config
       (make_document explanation
          [make_repaired_chart chart_type title quarters
             [make_dataset label [PFloat (Finite 10), PFloat (Finite 20), PInt 0]]]) =
       Inr (True, [])"
    using t e assms(3)
    by (simp add: repair_scenario_defs schema_shape_defs validate_config_def validate_body_def
        validate_def check_chart_def check_dataset_def)
  from first repair equal second show ?thesis by (intro conjI)
qed

theorem fix_common_issues_pads_short_data_witness:
  "validate_config (sales_document [PInt 10, PInt 20]) =
     Inr (False,
          [Lit ''Data length ('', Fmt (PInt 2), Lit '') doesn't match labels length ('',
           Fmt (PInt 3), Lit ('') in chart '' @ [CHR 0x27]), Fmt (PStr ''Sales''),
           Lit [CHR 0x27]]) \<and>
   fix_common_issues (\<lambda>s. None) (\<lambda>s. s) (sales_document [PInt 10, PInt 20]) =
     Inr (make_document ''Quarterly sales''
       [make_repaired_chart ''bar'' ''Sales'' quarters
          [make_dataset ''Revenue'' [PFloat (Finite 10), PFloat (Finite 20), PInt 0]]]) \<and>
   validate_config (make_document ''Quarterly sales''
       [make_repaired_chart ''bar'' ''Sales'' quarters
          [make_dataset ''Revenue'' [PFloat (Finite 10), PFloat (Finite 20), PInt 0]]]) =
     Inr (True, [])"
proof -
  have 1: "''Quarterly sales'' \<noteq> []" and 2: "''Sales'' \<noteq> []"
    and 3: "''bar'' \<in> set chart_types"
    by (simp_all add: chart_types_def)
  from fix_common_issues_pads_short_data
    [OF 1 2 3, of "''Revenue''" "\<lambda>s. None" "\<lambda>s. s"]
  show ?thesis
    by (simp add: sales_document_def)
qed

text \<open>
  C6.  Scenario C: the only chart has three labels and one dataset with data
  \<^verbatim>\<open>["a", 5, None]\<close>.  \<^verbatim>\<open>float("a")\<close> raises, so the dataset is dropped, the chart
  has no dataset left and is dropped, the result has the empty chart list, and
  \<open>validate_config\<close> returns False for it.
\<close>

theorem fix_common_issues_drops_uncoercible:
  assumes "parse ''a'' = None"
  shows
    "fix_common_issues parse title_case
       (make_document explanation
          [make_chart chart_type title [l1, l2, l3]
             [make_dataset label [PStr ''a'', PInt 5, PNone]]]) =
       Inr (make_document explanation []) \<and>
     validate_config (make_document explanation []) = Inr (False, [StrOf ValidationError])"
proof -
  have "validate_body (make_document explanation []) = Inl ValidationError"
    by (simp add: make_document_def schema_shape_defs validate_body_def validate_def)
  then have "validate_config (make_document explanation []) =
      Inr (False, [StrOf ValidationError])"
    by (simp add: validate_config_def)
  moreover have "fix_common_issues parse title_case
       (make_document explanation
          [make_chart chart_type title [l1, l2, l3]
             [make_dataset label [PStr ''a'', PInt 5, PNone]]]) =
       Inr (make_document explanation [])"
    using assms
    by (simp add: repair_scenario_defs fix_common_issues_def fix_chart_def fix_dataset_def
        coerce_def has_key_def)
  ultimately show ?thesis by simp
qed

theorem fix_common_issues_drops_uncoercible_witness:
  "fix_common_issues (\<lambda>s. None) (\<lambda>s. s) (sales_document [PStr ''a'', PInt 5, PNone]) =
     Inr (make_document ''Quarterly sales'' []) \<and>
   validate_config (make_document ''Quarterly sales'' []) =
     Inr (False, [StrOf ValidationError])"
proof -
  have "(\<lambda>s. None :: pyfloat option) ''a'' = None" by simp
  from fix_common_issues_drops_uncoercible [of "\<lambda>s. None" "\<lambda>s. s", OF this]
  show ?thesis
    by (simp add: sales_document_def quarters_def)
qed

end
